theory Spec2Isabelle
  imports Complex_Main "HOL-Library.AList" "HOL-Library.Sublist"
begin

section \<open>JavaScript values\<close>

text \<open>
  The registry handles agent cards as the values that \<^verbatim>\<open>JSON.parse\<close> produces. A string is
  a list of code units; the model covers the code units below 256. An object is the list of
  its own enumerable properties in enumeration order; a property read takes the first entry
  of a key.

  A number that \<^verbatim>\<open>JSON.parse\<close> reads is a finite double, taken as the real number it is
  (\<open>Finite 0\<close> is the positive zero), the negative zero (read from \<^verbatim>\<open>-0\<close>), or an infinity
  (read from a literal beyond the range of the doubles, such as \<^verbatim>\<open>1e400\<close>). It never reads a
  \<^verbatim>\<open>NaN\<close>.
\<close>

datatype js_number = Finite real | NegativeZero | PositiveInfinity | NegativeInfinity

datatype json =
    JNull
  | JBool bool
  | JNum js_number
  | JStr string
  | JArr "json list"
  | JObj "(string \<times> json) list"

text \<open>The results of \<^verbatim>\<open>typeof\<close>; \<open>None\<close> stands for \<^verbatim>\<open>undefined\<close>.\<close>

datatype js_type = TUndefined | TObject | TBoolean | TNumber | TString

fun js_typeof :: "json option \<Rightarrow> js_type" where
  "js_typeof None = TUndefined"
| "js_typeof (Some JNull) = TObject"
| "js_typeof (Some (JBool b)) = TBoolean"
| "js_typeof (Some (JNum n)) = TNumber"
| "js_typeof (Some (JStr s)) = TString"
| "js_typeof (Some (JArr xs)) = TObject"
| "js_typeof (Some (JObj kvs)) = TObject"

text \<open>\<^verbatim>\<open>!v\<close>: the falsy values among parsed JSON.\<close>

fun js_falsy :: "json \<Rightarrow> bool" where
  "js_falsy JNull = True"
| "js_falsy (JBool b) = (\<not> b)"
| "js_falsy (JNum n) = (n = Finite 0 \<or> n = NegativeZero)"
| "js_falsy (JStr s) = (s = [])"
| "js_falsy (JArr xs) = False"
| "js_falsy (JObj kvs) = False"

fun Array_isArray :: "json option \<Rightarrow> bool" where
  "Array_isArray (Some (JArr xs)) = True"
| "Array_isArray v = False"

text \<open>
  \<^verbatim>\<open>obj[key]\<close> for the property names the registry reads (none of them is inherited from a
  prototype, an array index or \<^verbatim>\<open>length\<close>): the own property of an object, \<^verbatim>\<open>undefined\<close>
  otherwise.
\<close>

fun js_prop :: "json \<Rightarrow> string \<Rightarrow> json option" where
  "js_prop (JObj kvs) k = map_of kvs k"
| "js_prop v k = None"

text \<open>\<^verbatim>\<open>key in obj\<close>, for the same property names.\<close>

definition js_in :: "string \<Rightarrow> json \<Rightarrow> bool" where
  "js_in k v = (js_prop v k \<noteq> None)"

text \<open>\<^verbatim>\<open>v ?? null\<close>, with \<open>None\<close> for \<^verbatim>\<open>null\<close> in the result.\<close>

fun nullish :: "json option \<Rightarrow> json option" where
  "nullish None = None"
| "nullish (Some JNull) = None"
| "nullish (Some v) = Some v"

text \<open>\<^verbatim>\<open>s.endsWith(t)\<close>: the last \<open>length t\<close> code units of \<open>s\<close> are \<open>t\<close>.\<close>

definition js_endsWith :: "string \<Rightarrow> string \<Rightarrow> bool" where
  "js_endsWith s t = (length t \<le> length s \<and> drop (length s - length t) s = t)"

text \<open>
  \<^verbatim>\<open>s.replace(/\/$/, '')\<close>: the pattern is tried at each index from the left; it matches a
  \<^verbatim>\<open>/\<close> that is followed by the end of the input, and the first match is removed.
\<close>

fun replace_slash_at_end :: "string \<Rightarrow> string" where
  "replace_slash_at_end [] = []"
| "replace_slash_at_end (c # cs) =
     (if c = CHR ''/'' \<and> cs = [] then [] else c # replace_slash_at_end cs)"

text \<open>
  \<^verbatim>\<open>s.trim()\<close>: white space and line terminators are removed at both ends. Below 256 these
  are tab, line feed, vertical tab, form feed, carriage return, space and no-break space.
\<close>

definition js_whitespace :: "char \<Rightarrow> bool" where
  "js_whitespace c = (of_char c \<in> {9, 10, 11, 12, 13, 32, 160 :: nat})"

definition js_trim :: "string \<Rightarrow> string" where
  "js_trim s = rev (dropWhile js_whitespace (rev (dropWhile js_whitespace s)))"

section \<open>AgentService: resolving the URL of the agent card\<close>

definition determineAgentCardUrl :: "string \<Rightarrow> string" where
  "determineAgentCardUrl url =
     (if js_endsWith url ''.json'' then url
      else (let baseUrl = replace_slash_at_end url
            in baseUrl @ ''/.well-known/agent-card.json''))"

text \<open>
  The specification words the rule on the path of the URL. Its reading of a URL, written
  out for comparison with the code: the part before the first \<^verbatim>\<open>?\<close> or \<^verbatim>\<open>#\<close> is a scheme, a
  \<^verbatim>\<open>:\<close>, an optional \<^verbatim>\<open>//\<close> with an authority, and the path.
\<close>

definition spec_url_path :: "string \<Rightarrow> string" where
  "spec_url_path u =
     (let hier = takeWhile (\<lambda>c. c \<noteq> CHR ''?'' \<and> c \<noteq> CHR ''#'') u;
          rest = drop 1 (dropWhile (\<lambda>c. c \<noteq> CHR '':'') hier)
      in if prefix ''//'' rest then dropWhile (\<lambda>c. c \<noteq> CHR ''/'') (drop 2 rest) else rest)"

definition spec_path_ends_with_json :: "string \<Rightarrow> bool" where
  "spec_path_ends_with_json u = suffix ''.json'' (spec_url_path u)"

section \<open>The URL constructor of the platform\<close>

text \<open>
  \<^verbatim>\<open>isValidUrl\<close> asks whether \<^verbatim>\<open>new URL(urlString)\<close> throws. The constructor runs the URL
  parser of the platform without a base URL. The model follows the parser through its scheme
  states: leading and trailing C0 controls and spaces are removed, tabs and newlines are
  removed everywhere, the input must start with a scheme (an ASCII letter, then letters,
  digits, \<^verbatim>\<open>+\<close>, \<^verbatim>\<open>-\<close> or \<^verbatim>\<open>.\<close>) and a colon, else parsing fails. After the scheme, a special
  scheme always enters the authority or file states, another scheme enters the authority
  state when \<^verbatim>\<open>//\<close> follows, and otherwise the rest is a path, a query and a fragment, which
  never fail. The authority, host, port and file states are the parameter \<open>authority_ok\<close>,
  applied to the scheme and the text after the colon.
\<close>

definition c0_control_or_space :: "char \<Rightarrow> bool" where
  "c0_control_or_space c = ((of_char c :: nat) \<le> 32)"

definition ascii_tab_or_newline :: "char \<Rightarrow> bool" where
  "ascii_tab_or_newline c = (of_char c \<in> {9, 10, 13 :: nat})"

definition ascii_alpha :: "char \<Rightarrow> bool" where
  "ascii_alpha c =
     (let n = (of_char c :: nat) in (65 \<le> n \<and> n \<le> 90) \<or> (97 \<le> n \<and> n \<le> 122))"

definition ascii_digit :: "char \<Rightarrow> bool" where
  "ascii_digit c = (let n = (of_char c :: nat) in 48 \<le> n \<and> n \<le> 57)"

definition scheme_char :: "char \<Rightarrow> bool" where
  "scheme_char c =
     (ascii_alpha c \<or> ascii_digit c \<or> c = CHR ''+'' \<or> c = CHR ''-'' \<or> c = CHR ''.'')"

definition ascii_lower :: "char \<Rightarrow> char" where
  "ascii_lower c =
     (let n = (of_char c :: nat) in if 65 \<le> n \<and> n \<le> 90 then char_of (n + 32) else c)"

definition url_input :: "string \<Rightarrow> string" where
  "url_input s =
     filter (\<lambda>c. \<not> ascii_tab_or_newline c)
       (rev (dropWhile c0_control_or_space (rev (dropWhile c0_control_or_space s))))"

text \<open>The scheme start state and the scheme state: the scheme and what remains after the colon.\<close>

definition url_scheme :: "string \<Rightarrow> (string \<times> string) option" where
  "url_scheme input =
     (case input of
        [] \<Rightarrow> None
      | c # cs \<Rightarrow>
          if \<not> ascii_alpha c then None
          else (case dropWhile scheme_char input of
                  [] \<Rightarrow> None
                | d # remaining \<Rightarrow>
                    if d = CHR '':''
                    then Some (map ascii_lower (takeWhile scheme_char input), remaining)
                    else None))"

definition special_schemes :: "string list" where
  "special_schemes = [''ftp'', ''file'', ''http'', ''https'', ''ws'', ''wss'']"

definition new_URL_ok :: "(string \<Rightarrow> string \<Rightarrow> bool) \<Rightarrow> string \<Rightarrow> bool" where
  "new_URL_ok authority_ok urlString =
     (case url_scheme (url_input urlString) of
        None \<Rightarrow> False
      | Some (scheme, remaining) \<Rightarrow>
          if scheme \<in> set special_schemes then authority_ok scheme remaining
          else if prefix ''//'' remaining then authority_ok scheme remaining
          else True)"

definition isValidUrl :: "(string \<Rightarrow> string \<Rightarrow> bool) \<Rightarrow> string \<Rightarrow> bool" where
  "isValidUrl authority_ok urlString = new_URL_ok authority_ok urlString"

text \<open>
  The specification asks for a scheme and an authority. Its reading, written out for
  comparison with the code: after the scheme and its colon comes \<^verbatim>\<open>//\<close> and a non-empty
  authority.
\<close>

definition spec_url_has_authority :: "string \<Rightarrow> bool" where
  "spec_url_has_authority u =
     (let rest = drop 1 (dropWhile (\<lambda>c. c \<noteq> CHR '':'') u)
      in prefix ''//'' rest \<and>
         takeWhile (\<lambda>c. c \<noteq> CHR ''/'' \<and> c \<noteq> CHR ''?'' \<and> c \<noteq> CHR ''#'') (drop 2 rest) \<noteq> [])"

section \<open>Errors\<close>

text \<open>
  The error classes of the registry, with the arguments of their constructors, and the two
  errors of the platform that the registry lets through: a \<^verbatim>\<open>TypeError\<close> and the
  \<^verbatim>\<open>SyntaxError\<close> of \<^verbatim>\<open>JSON.parse\<close>. \<open>NotAnAgentCard\<close> is no error of the code: it marks a
  call of a store with a value outside the type of its parameter.
\<close>

datatype error =
    AgentNotFoundError string
  | AgentAlreadyExistsError string
  | InvalidAgentCardError string
  | AgentFetchError string string
  | TypeError
  | SyntaxError
  | NotAnAgentCard

section \<open>The validator\<close>

definition requiredFields :: "string list" where
  "requiredFields =
     [''name'', ''description'', ''url'', ''version'', ''capabilities'',
      ''defaultInputModes'', ''defaultOutputModes'', ''skills'']"

definition fieldMissing :: "json \<Rightarrow> string \<Rightarrow> bool" where
  "fieldMissing data field =
     (\<not> js_in field data \<or> js_prop data field = None \<or> js_prop data field = Some JNull)"

definition nameIsNonEmptyString :: "json option \<Rightarrow> bool" where
  "nameIsNonEmptyString v =
     (case v of Some (JStr s) \<Rightarrow> length (js_trim s) \<noteq> 0 | _ \<Rightarrow> False)"

definition urlIsValidString :: "(string \<Rightarrow> string \<Rightarrow> bool) \<Rightarrow> json option \<Rightarrow> bool" where
  "urlIsValidString authority_ok v =
     (case v of Some (JStr s) \<Rightarrow> isValidUrl authority_ok s | _ \<Rightarrow> False)"

definition requiredSkillFields :: "string list" where
  "requiredSkillFields = [''id'', ''name'', ''description'', ''tags'']"

text \<open>One pass of the loop over the skills: the message of the first throw, if any.\<close>

definition validateSkill :: "json \<Rightarrow> string option" where
  "validateSkill skill =
     (if js_falsy skill \<or> js_typeof (Some skill) \<noteq> TObject
      then Some ''Each skill must be an object''
      else case find (\<lambda>field. \<not> js_in field skill) requiredSkillFields of
        Some field \<Rightarrow> Some (''Skill is missing required field: '' @ field)
      | None \<Rightarrow>
     (if js_typeof (js_prop skill ''id'') \<noteq> TString
      then Some ''Skill id must be a string''
      else if js_typeof (js_prop skill ''name'') \<noteq> TString
      then Some ''Skill name must be a string''
      else if js_typeof (js_prop skill ''description'') \<noteq> TString
      then Some ''Skill description must be a string''
      else if \<not> Array_isArray (js_prop skill ''tags'')
      then Some ''Skill tags must be an array''
      else if js_in ''examples'' skill \<and> \<not> Array_isArray (js_prop skill ''examples'')
      then Some ''Skill examples must be an array when provided''
      else if js_in ''inputModes'' skill \<and> \<not> Array_isArray (js_prop skill ''inputModes'')
      then Some ''Skill inputModes must be an array when provided''
      else if js_in ''outputModes'' skill \<and> \<not> Array_isArray (js_prop skill ''outputModes'')
      then Some ''Skill outputModes must be an array when provided''
      else None))"

fun validateSkills :: "json list \<Rightarrow> string option" where
  "validateSkills [] = None"
| "validateSkills (skill # skills) =
     (case validateSkill skill of
        Some message \<Rightarrow> Some message
      | None \<Rightarrow> validateSkills skills)"

text \<open>The checks on the optional fields, shared by both generations of the validator.\<close>

definition validateOptionalFields :: "json \<Rightarrow> error + unit" where
  "validateOptionalFields data =
     (if js_in ''protocolVersion'' data \<and> js_typeof (js_prop data ''protocolVersion'') \<noteq> TString
      then Inl (InvalidAgentCardError ''protocolVersion must be a string'')
      else if js_in ''preferredTransport'' data
              \<and> js_typeof (js_prop data ''preferredTransport'') \<noteq> TString
      then Inl (InvalidAgentCardError ''preferredTransport must be a string'')
      else if js_in ''iconUrl'' data \<and> js_prop data ''iconUrl'' \<noteq> Some JNull
              \<and> js_typeof (js_prop data ''iconUrl'') \<noteq> TString
      then Inl (InvalidAgentCardError ''iconUrl must be a string or null'')
      else Inr ())"

text \<open>
  The validator of the second generation, the later one (it checks \<^verbatim>\<open>capabilities\<close> as an
  object and looks into each skill): \<open>Inl\<close> carries the error it throws, \<open>Inr ()\<close> is a
  normal return.
\<close>

definition validateAgentCard :: "(string \<Rightarrow> string \<Rightarrow> bool) \<Rightarrow> json \<Rightarrow> error + unit" where
  "validateAgentCard authority_ok data =
     (if js_falsy data \<or> js_typeof (Some data) \<noteq> TObject
      then Inl (InvalidAgentCardError ''AgentCard must be an object'')
      else case find (fieldMissing data) requiredFields of
        Some field \<Rightarrow> Inl (InvalidAgentCardError (''Missing required field: '' @ field))
      | None \<Rightarrow>
     (if \<not> nameIsNonEmptyString (js_prop data ''name'')
      then Inl (InvalidAgentCardError ''name must be a non-empty string'')
      else if js_typeof (js_prop data ''description'') \<noteq> TString
      then Inl (InvalidAgentCardError ''description must be a string'')
      else if \<not> urlIsValidString authority_ok (js_prop data ''url'')
      then Inl (InvalidAgentCardError ''url must be a valid URL string'')
      else if js_typeof (js_prop data ''version'') \<noteq> TString
      then Inl (InvalidAgentCardError ''version must be a string'')
      else if js_typeof (js_prop data ''capabilities'') \<noteq> TObject
              \<or> js_prop data ''capabilities'' = Some JNull
              \<or> Array_isArray (js_prop data ''capabilities'')
      then Inl (InvalidAgentCardError ''capabilities must be an object'')
      else if \<not> Array_isArray (js_prop data ''defaultInputModes'')
      then Inl (InvalidAgentCardError ''defaultInputModes must be an array'')
      else if \<not> Array_isArray (js_prop data ''defaultOutputModes'')
      then Inl (InvalidAgentCardError ''defaultOutputModes must be an array'')
      else (case js_prop data ''skills'' of
        Some (JArr skills) \<Rightarrow>
          (case validateSkills skills of
             Some message \<Rightarrow> Inl (InvalidAgentCardError message)
           | None \<Rightarrow> validateOptionalFields data)
      | _ \<Rightarrow> Inl (InvalidAgentCardError ''skills must be an array''))))"

text \<open>
  The validator of the first generation: it asks for an array in \<^verbatim>\<open>capabilities\<close> and does
  not look into the skills.
\<close>

definition validateAgentCard_gen1 :: "(string \<Rightarrow> string \<Rightarrow> bool) \<Rightarrow> json \<Rightarrow> error + unit" where
  "validateAgentCard_gen1 authority_ok data =
     (if js_falsy data \<or> js_typeof (Some data) \<noteq> TObject
      then Inl (InvalidAgentCardError ''AgentCard must be an object'')
      else case find (fieldMissing data) requiredFields of
        Some field \<Rightarrow> Inl (InvalidAgentCardError (''Missing required field: '' @ field))
      | None \<Rightarrow>
     (if \<not> nameIsNonEmptyString (js_prop data ''name'')
      then Inl (InvalidAgentCardError ''name must be a non-empty string'')
      else if js_typeof (js_prop data ''description'') \<noteq> TString
      then Inl (InvalidAgentCardError ''description must be a string'')
      else if \<not> urlIsValidString authority_ok (js_prop data ''url'')
      then Inl (InvalidAgentCardError ''url must be a valid URL string'')
      else if js_typeof (js_prop data ''version'') \<noteq> TString
      then Inl (InvalidAgentCardError ''version must be a string'')
      else if \<not> Array_isArray (js_prop data ''capabilities'')
      then Inl (InvalidAgentCardError ''capabilities must be an array'')
      else if \<not> Array_isArray (js_prop data ''defaultInputModes'')
      then Inl (InvalidAgentCardError ''defaultInputModes must be an array'')
      else if \<not> Array_isArray (js_prop data ''defaultOutputModes'')
      then Inl (InvalidAgentCardError ''defaultOutputModes must be an array'')
      else if \<not> Array_isArray (js_prop data ''skills'')
      then Inl (InvalidAgentCardError ''skills must be an array'')
      else validateOptionalFields data))"

text \<open>
  \<^verbatim>\<open>agentCard.name\<close> of a value typed \<^verbatim>\<open>AgentCard\<close>: the type promises a string, and a value
  that passed the validator has one.
\<close>

definition agentName :: "json \<Rightarrow> string option" where
  "agentName agentCard = (case js_prop agentCard ''name'' of Some (JStr n) \<Rightarrow> Some n | _ \<Rightarrow> None)"

section \<open>The platform around the registry\<close>

text \<open>
  What the registry calls and does not define: the authority states of the URL parser, the
  HTTP client (for a URL, the parsed body of a response with status 200, or the cause of
  the failure), and \<^verbatim>\<open>JSON.stringify\<close> and \<^verbatim>\<open>JSON.parse\<close> on the text column of the database
  (\<open>None\<close> for a \<^verbatim>\<open>SyntaxError\<close>). The two JSON functions are fields, so that what does not
  depend on them is proved for any; the ones of the platform are defined below. The file
  system and the database engine are taken to work: no operation of theirs fails, apart
  from the insertion of a duplicate key.
\<close>

record 'text platform =
  URL_authority_ok :: "string \<Rightarrow> string \<Rightarrow> bool"
  axios_get :: "string \<Rightarrow> string + json"
  JSON_stringify :: "json \<Rightarrow> 'text"
  JSON_parse :: "'text \<Rightarrow> json option"

section \<open>JSON texts\<close>

text \<open>
  A text is modelled by what \<^verbatim>\<open>JSON.parse\<close> makes of it: the value it reads, or a syntax
  error. \<^verbatim>\<open>JSON.stringify\<close> writes the negative zero as \<^verbatim>\<open>0\<close> and an infinity as \<^verbatim>\<open>null\<close>;
  every other part of a parsed value is written so that it is read back as it was.
  \<open>JSON_written\<close> is the value read back from the text written for a value.
\<close>

datatype json_text = JsonText json | NotJson

fun number_written :: "js_number \<Rightarrow> json" where
  "number_written (Finite r) = JNum (Finite r)"
| "number_written NegativeZero = JNum (Finite 0)"
| "number_written PositiveInfinity = JNull"
| "number_written NegativeInfinity = JNull"

primrec JSON_written :: "json \<Rightarrow> json" where
  "JSON_written JNull = JNull"
| "JSON_written (JBool b) = JBool b"
| "JSON_written (JNum n) = number_written n"
| "JSON_written (JStr s) = JStr s"
| "JSON_written (JArr xs) = JArr (map JSON_written xs)"
| "JSON_written (JObj kvs) = JObj (map (map_prod id JSON_written) kvs)"

definition JSON_stringify_text :: "json \<Rightarrow> json_text" where
  "JSON_stringify_text v = JsonText (JSON_written v)"

fun JSON_parse_text :: "json_text \<Rightarrow> json option" where
  "JSON_parse_text (JsonText v) = Some v"
| "JSON_parse_text NotJson = None"

text \<open>The platform with these JSON functions, whatever its URL parser and its HTTP client.\<close>

definition standard_platform ::
  "(string \<Rightarrow> string \<Rightarrow> bool) \<Rightarrow> (string \<Rightarrow> string + json) \<Rightarrow> json_text platform" where
  "standard_platform authority_ok http =
     \<lparr>URL_authority_ok = authority_ok, axios_get = http,
      JSON_stringify = JSON_stringify_text, JSON_parse = JSON_parse_text\<rparr>"

text \<open>A value without a negative zero and without an infinity.\<close>

fun number_lossless :: "js_number \<Rightarrow> bool" where
  "number_lossless (Finite r) = True"
| "number_lossless n = False"

primrec json_lossless :: "json \<Rightarrow> bool" where
  "json_lossless JNull = True"
| "json_lossless (JBool b) = True"
| "json_lossless (JNum n) = number_lossless n"
| "json_lossless (JStr s) = True"
| "json_lossless (JArr xs) = list_all (\<lambda>b. b) (map json_lossless xs)"
| "json_lossless (JObj kvs) = list_all snd (map (map_prod id json_lossless) kvs)"

text \<open>
  The order in which an object lists its own properties: the keys that are array indices
  (canonical decimal numerals below \<open>2\<^sup>3\<^sup>2 - 1\<close>) in ascending order, then the other keys in the
  order of their creation.
\<close>

definition decimal_value :: "string \<Rightarrow> nat" where
  "decimal_value k = fold (\<lambda>c n. 10 * n + (of_char c - 48)) k 0"

definition array_index :: "string \<Rightarrow> nat option" where
  "array_index k =
     (if k \<noteq> [] \<and> list_all (\<lambda>c. 48 \<le> (of_char c :: nat) \<and> (of_char c :: nat) \<le> 57) k
         \<and> (length k = 1 \<or> hd k \<noteq> CHR ''0'') \<and> decimal_value k < 4294967295
      then Some (decimal_value k) else None)"

definition own_property_order :: "(string \<times> 'a) list \<Rightarrow> (string \<times> 'a) list" where
  "own_property_order kvs =
     sort_key (\<lambda>kv. case array_index (fst kv) of Some i \<Rightarrow> i | None \<Rightarrow> 0)
       (filter (\<lambda>kv. array_index (fst kv) \<noteq> None) kvs)
     @ filter (\<lambda>kv. array_index (fst kv) = None) kvs"

section \<open>JsonFileStore\<close>

text \<open>
  The fields of the class, and with them the file at \<^verbatim>\<open>filePath\<close>: \<open>file_content\<close> is the
  value that \<^verbatim>\<open>JSON.parse\<close> gives for the text of the file, \<open>None\<close> when the file does not
  exist or when reading or parsing it throws. The \<^verbatim>\<open>Map\<close> is an association list in
  insertion order.
\<close>

record JsonFileStore =
  file_content :: "json option"
  agents :: "(string \<times> json) list"
  initialized :: bool

definition JsonFileStore_new :: "json option \<Rightarrow> JsonFileStore" where
  "JsonFileStore_new content = \<lparr>file_content = content, agents = [], initialized = False\<rparr>"

text \<open>The property key of an array index: its decimal digits.\<close>

definition decimal_digit :: "nat \<Rightarrow> char" where
  "decimal_digit d = char_of (d + 48)"

fun index_key :: "nat \<Rightarrow> string" where
  "index_key i =
     (if 10 \<le> i then index_key (i div 10) @ [decimal_digit (i mod 10)]
      else [decimal_digit i])"

text \<open>\<^verbatim>\<open>Object.entries\<close>: the properties of an object, the indexed elements of an array.\<close>

fun Object_entries :: "json \<Rightarrow> (string \<times> json) list" where
  "Object_entries (JObj kvs) = kvs"
| "Object_entries (JArr xs) = zip (map index_key [0..<length xs]) xs"
| "Object_entries v = []"

definition JsonFileStore_initialize :: "JsonFileStore \<Rightarrow> JsonFileStore" where
  "JsonFileStore_initialize this =
     (if initialized this then this
      else (case file_content this of
              None \<Rightarrow> this\<lparr>initialized := True\<rparr>
            | Some parsed \<Rightarrow>
                if js_typeof (Some parsed) = TObject \<and> parsed \<noteq> JNull
                then this\<lparr>agents := fold (\<lambda>(name, agentCard). AList.update name agentCard)
                                       (Object_entries parsed) (agents this),
                          initialized := True\<rparr>
                else this\<lparr>initialized := True\<rparr>))"

text \<open>
  \<^verbatim>\<open>persist\<close> copies the map into a fresh object, entry by entry, and writes the object as
  JSON. The assignment \<^verbatim>\<open>data[name] = agentCard\<close> creates no own property for the name
  \<^verbatim>\<open>__proto__\<close>, so that entry is not written. The file then reads as the object in the order
  of its own properties, each document as its JSON text reads.
\<close>

definition persisted_object :: "(string \<times> json) list \<Rightarrow> json" where
  "persisted_object entries =
     (let data = fold (\<lambda>(name, agentCard). AList.update name agentCard)
                   (filter (\<lambda>(name, agentCard). name \<noteq> ''__proto__'') entries) []
      in JSON_written (JObj (own_property_order data)))"

definition JsonFileStore_persist :: "JsonFileStore \<Rightarrow> JsonFileStore" where
  "JsonFileStore_persist this = this\<lparr>file_content := Some (persisted_object (agents this))\<rparr>"

definition JsonFileStore_listAgents :: "JsonFileStore \<Rightarrow> json list \<times> JsonFileStore" where
  "JsonFileStore_listAgents this0 =
     (let this = JsonFileStore_initialize this0 in (map snd (agents this), this))"

definition JsonFileStore_getAgent :: "JsonFileStore \<Rightarrow> string \<Rightarrow> json option \<times> JsonFileStore" where
  "JsonFileStore_getAgent this0 name =
     (let this = JsonFileStore_initialize this0 in (nullish (map_of (agents this) name), this))"

text \<open>
  \<^verbatim>\<open>createAgent\<close> takes an \<^verbatim>\<open>AgentCard\<close>, whose name is a string; the service passes only
  cards that the validator accepted. A value without a string as its name is outside that
  type. The code does not check for it (the file store would take the value as a key of its
  map, the database would bind it), and the model does not follow the code there: in both
  stores it answers \<open>NotAnAgentCard\<close> and leaves the store as it is. Every property of
  \<^verbatim>\<open>createAgent\<close> below is stated for a card whose name is a string.
\<close>

definition JsonFileStore_createAgent ::
  "JsonFileStore \<Rightarrow> json \<Rightarrow> (error + json) \<times> JsonFileStore" where
  "JsonFileStore_createAgent this0 agentCard =
     (let this = JsonFileStore_initialize this0 in
      case agentName agentCard of
        None \<Rightarrow> (Inl NotAnAgentCard, this)
      | Some name \<Rightarrow>
          if map_of (agents this) name \<noteq> None
          then (Inl (AgentAlreadyExistsError name), this)
          else (Inr agentCard,
                JsonFileStore_persist (this\<lparr>agents := AList.update name agentCard (agents this)\<rparr>)))"

definition JsonFileStore_updateAgent ::
  "JsonFileStore \<Rightarrow> string \<Rightarrow> json \<Rightarrow> json option \<times> JsonFileStore" where
  "JsonFileStore_updateAgent this0 name agentCard =
     (let this = JsonFileStore_initialize this0 in
      if \<not> (map_of (agents this) name \<noteq> None) then (None, this)
      else (Some agentCard,
            JsonFileStore_persist (this\<lparr>agents := AList.update name agentCard (agents this)\<rparr>)))"

definition JsonFileStore_deleteAgent :: "JsonFileStore \<Rightarrow> string \<Rightarrow> bool \<times> JsonFileStore" where
  "JsonFileStore_deleteAgent this0 name =
     (let this = JsonFileStore_initialize this0 in
      if \<not> (map_of (agents this) name \<noteq> None) then (False, this)
      else (True, JsonFileStore_persist (this\<lparr>agents := AList.delete name (agents this)\<rparr>)))"

section \<open>SqliteStore\<close>

text \<open>
  The database is the table \<^verbatim>\<open>agents (name TEXT PRIMARY KEY, agent_card TEXT NOT NULL)\<close>, a
  list of rows. The four statements of the class: a \<^verbatim>\<open>SELECT\<close> by name returns the first
  matching row, an \<^verbatim>\<open>INSERT\<close> fails on a name that is there (\<open>None\<close>: the engine reports
  \<^verbatim>\<open>UNIQUE constraint failed\<close>), \<^verbatim>\<open>UPDATE\<close> and \<^verbatim>\<open>DELETE\<close> return the number of rows they
  changed.
\<close>

record 'text SqliteStore =
  agents_table :: "(string \<times> 'text) list"

definition SqliteStore_new :: "(string \<times> 'text) list \<Rightarrow> 'text SqliteStore" where
  "SqliteStore_new rows = \<lparr>agents_table = rows\<rparr>"

definition sql_select :: "(string \<times> 'text) list \<Rightarrow> string \<Rightarrow> 'text option" where
  "sql_select rows name = map_option snd (find (\<lambda>row. fst row = name) rows)"

definition sql_insert ::
  "(string \<times> 'text) list \<Rightarrow> string \<Rightarrow> 'text \<Rightarrow> (string \<times> 'text) list option" where
  "sql_insert rows name agent_card =
     (if find (\<lambda>row. fst row = name) rows \<noteq> None then None
      else Some (rows @ [(name, agent_card)]))"

definition sql_update ::
  "(string \<times> 'text) list \<Rightarrow> 'text \<Rightarrow> string \<Rightarrow> nat \<times> (string \<times> 'text) list" where
  "sql_update rows agent_card name =
     (length (filter (\<lambda>row. fst row = name) rows),
      map (\<lambda>row. if fst row = name then (fst row, agent_card) else row) rows)"

definition sql_delete :: "(string \<times> 'text) list \<Rightarrow> string \<Rightarrow> nat \<times> (string \<times> 'text) list" where
  "sql_delete rows name =
     (length (filter (\<lambda>row. fst row = name) rows),
      filter (\<lambda>row. \<not> (fst row = name)) rows)"

definition SqliteStore_listAgents ::
  "'text platform \<Rightarrow> 'text SqliteStore \<Rightarrow> error + json list" where
  "SqliteStore_listAgents env this =
     (case those (map (\<lambda>row. JSON_parse env (snd row)) (agents_table this)) of
        None \<Rightarrow> Inl SyntaxError
      | Some cards \<Rightarrow> Inr cards)"

definition SqliteStore_getAgent ::
  "'text platform \<Rightarrow> 'text SqliteStore \<Rightarrow> string \<Rightarrow> error + json option" where
  "SqliteStore_getAgent env this name =
     (case sql_select (agents_table this) name of
        None \<Rightarrow> Inr None
      | Some agent_card \<Rightarrow>
          (case JSON_parse env agent_card of
             None \<Rightarrow> Inl SyntaxError
           | Some v \<Rightarrow> Inr (nullish (Some v))))"

definition SqliteStore_createAgent ::
  "'text platform \<Rightarrow> 'text SqliteStore \<Rightarrow> json \<Rightarrow> (error + json) \<times> 'text SqliteStore" where
  "SqliteStore_createAgent env this agentCard =
     (case agentName agentCard of
        None \<Rightarrow> (Inl NotAnAgentCard, this)
      | Some name \<Rightarrow>
          (case sql_insert (agents_table this) name (JSON_stringify env agentCard) of
             None \<Rightarrow> (Inl (AgentAlreadyExistsError name), this)
           | Some rows \<Rightarrow> (Inr agentCard, this\<lparr>agents_table := rows\<rparr>)))"

definition SqliteStore_updateAgent ::
  "'text platform \<Rightarrow> 'text SqliteStore \<Rightarrow> string \<Rightarrow> json \<Rightarrow> json option \<times> 'text SqliteStore" where
  "SqliteStore_updateAgent env this name agentCard =
     (case sql_update (agents_table this) (JSON_stringify env agentCard) name of
        (changes, rows) \<Rightarrow>
          if changes = 0 then (None, this\<lparr>agents_table := rows\<rparr>)
          else (Some agentCard, this\<lparr>agents_table := rows\<rparr>))"

definition SqliteStore_deleteAgent ::
  "'text SqliteStore \<Rightarrow> string \<Rightarrow> bool \<times> 'text SqliteStore" where
  "SqliteStore_deleteAgent this name =
     (case sql_delete (agents_table this) name of
        (changes, rows) \<Rightarrow> (changes > 0, this\<lparr>agents_table := rows\<rparr>))"

section \<open>The Store interface\<close>

datatype 'text Store = JsonFile JsonFileStore | Sqlite "'text SqliteStore"

fun Store_getAgent ::
  "'text platform \<Rightarrow> 'text Store \<Rightarrow> string \<Rightarrow> (error + json option) \<times> 'text Store" where
  "Store_getAgent env (JsonFile this) name =
     (case JsonFileStore_getAgent this name of (r, this') \<Rightarrow> (Inr r, JsonFile this'))"
| "Store_getAgent env (Sqlite this) name = (SqliteStore_getAgent env this name, Sqlite this)"

fun Store_createAgent ::
  "'text platform \<Rightarrow> 'text Store \<Rightarrow> json \<Rightarrow> (error + json) \<times> 'text Store" where
  "Store_createAgent env (JsonFile this) agentCard =
     (case JsonFileStore_createAgent this agentCard of (r, this') \<Rightarrow> (r, JsonFile this'))"
| "Store_createAgent env (Sqlite this) agentCard =
     (case SqliteStore_createAgent env this agentCard of (r, this') \<Rightarrow> (r, Sqlite this'))"

fun Store_updateAgent ::
  "'text platform \<Rightarrow> 'text Store \<Rightarrow> string \<Rightarrow> json \<Rightarrow> json option \<times> 'text Store" where
  "Store_updateAgent env (JsonFile this) name agentCard =
     (case JsonFileStore_updateAgent this name agentCard of (r, this') \<Rightarrow> (r, JsonFile this'))"
| "Store_updateAgent env (Sqlite this) name agentCard =
     (case SqliteStore_updateAgent env this name agentCard of (r, this') \<Rightarrow> (r, Sqlite this'))"

fun Store_deleteAgent :: "'text Store \<Rightarrow> string \<Rightarrow> bool \<times> 'text Store" where
  "Store_deleteAgent (JsonFile this) name =
     (case JsonFileStore_deleteAgent this name of (r, this') \<Rightarrow> (r, JsonFile this'))"
| "Store_deleteAgent (Sqlite this) name =
     (case SqliteStore_deleteAgent this name of (r, this') \<Rightarrow> (r, Sqlite this'))"

text \<open>What is written durably: the content of the file, the rows of the table.\<close>

fun Store_written :: "'text Store \<Rightarrow> json option + (string \<times> 'text) list" where
  "Store_written (JsonFile this) = Inl (file_content this)"
| "Store_written (Sqlite this) = Inr (agents_table this)"

section \<open>AgentService\<close>

text \<open>
  The service holds its store; \<open>requests\<close> records the URLs of the HTTP requests it has
  sent, oldest first.
\<close>

record 'text AgentService =
  store :: "'text Store"
  requests :: "string list"

definition fetchAgentCard ::
  "'text platform \<Rightarrow> string \<Rightarrow> string list \<Rightarrow> (error + json) \<times> string list" where
  "fetchAgentCard env url sent =
     (let agentCardUrl = determineAgentCardUrl url in
      case axios_get env agentCardUrl of
        Inl cause \<Rightarrow> (Inl (AgentFetchError agentCardUrl cause), sent @ [agentCardUrl])
      | Inr data \<Rightarrow>
          (case validateAgentCard (URL_authority_ok env) data of
             Inl e \<Rightarrow> (Inl e, sent @ [agentCardUrl])
           | Inr u \<Rightarrow> (Inr data, sent @ [agentCardUrl])))"

definition registerAgent ::
  "'text platform \<Rightarrow> 'text AgentService \<Rightarrow> string \<Rightarrow> (error + json) \<times> 'text AgentService" where
  "registerAgent env this url =
     (case fetchAgentCard env url (requests this) of
        (Inl e, sent) \<Rightarrow> (Inl e, this\<lparr>requests := sent\<rparr>)
      | (Inr agentCard, sent) \<Rightarrow>
          (case Store_createAgent env (store this) agentCard of
             (r, st) \<Rightarrow> (r, this\<lparr>store := st, requests := sent\<rparr>)))"

definition getAgent ::
  "'text platform \<Rightarrow> 'text AgentService \<Rightarrow> string
    \<Rightarrow> (error + json option) \<times> 'text AgentService" where
  "getAgent env this name =
     (case Store_getAgent env (store this) name of (r, st) \<Rightarrow> (r, this\<lparr>store := st\<rparr>))"

text \<open>
  The message of the name check. The card has passed the validator, so its name is a
  string; the text the platform prints for another value is not modelled.
\<close>

definition nameChangedMessage :: "string \<Rightarrow> json \<Rightarrow> string" where
  "nameChangedMessage name agentCard =
     ''Cannot update agent '' @ [CHR 0x27] @ name @ [CHR 0x27]
       @ '': fetched AgentCard has different name '' @ [CHR 0x27]
       @ (case agentName agentCard of Some n \<Rightarrow> n | None \<Rightarrow> []) @ [CHR 0x27]"

text \<open>
  \<^verbatim>\<open>url ?? existingAgent.url\<close>, as the string that \<^verbatim>\<open>determineAgentCardUrl\<close> can work on: with
  anything but a string, \<^verbatim>\<open>url.endsWith\<close> throws a \<^verbatim>\<open>TypeError\<close>.
\<close>

definition fetchUrlOf :: "string option \<Rightarrow> json \<Rightarrow> string option" where
  "fetchUrlOf url existingAgent =
     (case url of
        Some u \<Rightarrow> Some u
      | None \<Rightarrow> (case js_prop existingAgent ''url'' of Some (JStr u) \<Rightarrow> Some u | _ \<Rightarrow> None))"

definition updateAgent ::
  "'text platform \<Rightarrow> 'text AgentService \<Rightarrow> string \<Rightarrow> string option
    \<Rightarrow> (error + json option) \<times> 'text AgentService" where
  "updateAgent env this name url =
     (case Store_getAgent env (store this) name of
        (Inl e, st) \<Rightarrow> (Inl e, this\<lparr>store := st\<rparr>)
      | (Inr None, st) \<Rightarrow> (Inr None, this\<lparr>store := st\<rparr>)
      | (Inr (Some existingAgent), st) \<Rightarrow>
          if js_falsy existingAgent then (Inr None, this\<lparr>store := st\<rparr>)
          else (case fetchUrlOf url existingAgent of
                  None \<Rightarrow> (Inl TypeError, this\<lparr>store := st\<rparr>)
                | Some fetchUrl \<Rightarrow>
                    (case fetchAgentCard env fetchUrl (requests this) of
                       (Inl e, sent) \<Rightarrow> (Inl e, this\<lparr>store := st, requests := sent\<rparr>)
                     | (Inr agentCard, sent) \<Rightarrow>
                         if js_prop agentCard ''name'' \<noteq> Some (JStr name)
                         then (Inl (InvalidAgentCardError (nameChangedMessage name agentCard)),
                               this\<lparr>store := st, requests := sent\<rparr>)
                         else (case Store_updateAgent env st name agentCard of
                                 (r, st') \<Rightarrow> (Inr r, this\<lparr>store := st', requests := sent\<rparr>)))))"

definition deleteAgent ::
  "'text AgentService \<Rightarrow> string \<Rightarrow> bool \<times> 'text AgentService" where
  "deleteAgent this name =
     (case Store_deleteAgent (store this) name of (r, st) \<Rightarrow> (r, this\<lparr>store := st\<rparr>))"

section \<open>The operations of a store as data\<close>

text \<open>
  The operations of the Store interface as data, and what a caller observes of each: the
  result of the call. A listing is observed as the set of its documents, since its order is
  not part of the contract.
\<close>

datatype store_op =
    Create json
  | Get string
  | Replace string json
  | Delete string
  | List

datatype outcome =
    CreateResult "error + json"
  | GetResult "error + json option"
  | ReplaceResult "json option"
  | DeleteResult bool
  | ListResult "error + json set"

fun JsonFileStore_apply :: "JsonFileStore \<Rightarrow> store_op \<Rightarrow> outcome \<times> JsonFileStore" where
  "JsonFileStore_apply this (Create agentCard) =
     (case JsonFileStore_createAgent this agentCard of (r, this') \<Rightarrow> (CreateResult r, this'))"
| "JsonFileStore_apply this (Get name) =
     (case JsonFileStore_getAgent this name of (r, this') \<Rightarrow> (GetResult (Inr r), this'))"
| "JsonFileStore_apply this (Replace name agentCard) =
     (case JsonFileStore_updateAgent this name agentCard of
        (r, this') \<Rightarrow> (ReplaceResult r, this'))"
| "JsonFileStore_apply this (Delete name) =
     (case JsonFileStore_deleteAgent this name of (r, this') \<Rightarrow> (DeleteResult r, this'))"
| "JsonFileStore_apply this List =
     (case JsonFileStore_listAgents this of (r, this') \<Rightarrow> (ListResult (Inr (set r)), this'))"

fun SqliteStore_apply ::
  "'text platform \<Rightarrow> 'text SqliteStore \<Rightarrow> store_op \<Rightarrow> outcome \<times> 'text SqliteStore" where
  "SqliteStore_apply env this (Create agentCard) =
     (case SqliteStore_createAgent env this agentCard of (r, this') \<Rightarrow> (CreateResult r, this'))"
| "SqliteStore_apply env this (Get name) = (GetResult (SqliteStore_getAgent env this name), this)"
| "SqliteStore_apply env this (Replace name agentCard) =
     (case SqliteStore_updateAgent env this name agentCard of
        (r, this') \<Rightarrow> (ReplaceResult r, this'))"
| "SqliteStore_apply env this (Delete name) =
     (case SqliteStore_deleteAgent this name of (r, this') \<Rightarrow> (DeleteResult r, this'))"
| "SqliteStore_apply env this List =
     (ListResult (map_sum id set (SqliteStore_listAgents env this)), this)"

section \<open>Notions the properties are stated with\<close>

text \<open>A name is present in a store: the map has the key once the file is loaded, the table has a row.\<close>

definition JsonFileStore_has :: "JsonFileStore \<Rightarrow> string \<Rightarrow> bool" where
  "JsonFileStore_has this name = (map_of (agents (JsonFileStore_initialize this)) name \<noteq> None)"

definition SqliteStore_has :: "'text SqliteStore \<Rightarrow> string \<Rightarrow> bool" where
  "SqliteStore_has this name = (sql_select (agents_table this) name \<noteq> None)"

fun Store_has :: "'text Store \<Rightarrow> string \<Rightarrow> bool" where
  "Store_has (JsonFile this) name = JsonFileStore_has this name"
| "Store_has (Sqlite this) name = SqliteStore_has this name"

section \<open>Example values\<close>

definition example_skill :: json where
  "example_skill =
     JObj [(''id'', JStr ''forecast''), (''name'', JStr ''Forecast''),
           (''description'', JStr ''Weather forecast for a city''),
           (''tags'', JArr [JStr ''weather''])]"

definition example_fields :: "string \<Rightarrow> string \<Rightarrow> json \<Rightarrow> (string \<times> json) list" where
  "example_fields name url capabilities =
     [(''name'', JStr name), (''description'', JStr ''Reports the weather''),
      (''url'', JStr url), (''version'', JStr ''1.0.0''),
      (''capabilities'', capabilities),
      (''defaultInputModes'', JArr [JStr ''text/plain'']),
      (''defaultOutputModes'', JArr [JStr ''application/json'']),
      (''skills'', JArr [example_skill])]"

definition example_card :: json where
  "example_card =
     JObj (example_fields ''weather'' ''https://example.com'' (JObj [(''streaming'', JBool True)]))"

definition renamed_card :: json where
  "renamed_card =
     JObj (example_fields ''climate'' ''https://example.com'' (JObj [(''streaming'', JBool True)]))"

definition updated_card :: json where
  "updated_card =
     JObj (example_fields ''climate'' ''https://example.com'' (JObj [(''streaming'', JBool False)]))"

definition array_capabilities_card :: json where
  "array_capabilities_card =
     JObj (example_fields ''weather'' ''https://example.com'' (JArr []))"

definition mailto_card :: json where
  "mailto_card =
     JObj (example_fields ''weather'' ''mailto:user@example.com'' (JObj []))"

definition schemeless_card :: json where
  "schemeless_card = JObj (example_fields ''weather'' ''example.com/agent'' (JObj []))"

text \<open>
  A valid card with a negative zero and an infinity among its capabilities, as the body
  \<^verbatim>\<open>{..., "capabilities": {"weight": -0, "limit": 1e400}, ...}\<close> is parsed.
\<close>

definition lossy_card :: json where
  "lossy_card =
     JObj (example_fields ''weather'' ''https://example.com''
             (JObj [(''weight'', JNum NegativeZero), (''limit'', JNum PositiveInfinity)]))"

definition lossy_card_read_back :: json where
  "lossy_card_read_back =
     JObj (example_fields ''weather'' ''https://example.com''
             (JObj [(''weight'', JNum (Finite 0)), (''limit'', JNull)]))"

text \<open>
  A platform for the examples: every authority is accepted, one host serves the example
  card and another one a card of a different name.
\<close>

definition example_http :: "string \<Rightarrow> string + json" where
  "example_http url =
     (if url = ''https://example.com/.well-known/agent-card.json'' then Inr example_card
      else if url = ''https://moved.example.com/.well-known/agent-card.json''
      then Inr renamed_card
      else Inl ''DNS lookup failed'')"

definition example_platform :: "json_text platform" where
  "example_platform = standard_platform (\<lambda>scheme remaining. True) example_http"

text \<open>Stores that hold the example card, and services on them.\<close>

definition example_file_store :: JsonFileStore where
  "example_file_store = snd (JsonFileStore_createAgent (JsonFileStore_new None) example_card)"

definition example_database :: "json_text SqliteStore" where
  "example_database =
     snd (SqliteStore_createAgent example_platform (SqliteStore_new []) example_card)"

definition example_file_service :: "json_text AgentService" where
  "example_file_service = \<lparr>store = JsonFile example_file_store, requests = []\<rparr>"

definition example_database_service :: "json_text AgentService" where
  "example_database_service = \<lparr>store = Sqlite example_database, requests = []\<rparr>"



section \<open>Properties of the URL resolution\<close>

lemma js_endsWith_suffix: "js_endsWith s t = suffix t s"
proof
  assume "js_endsWith s t"
  then have "s = take (length s - length t) s @ t"
    unfolding js_endsWith_def by (metis append_take_drop_id)
  then show "suffix t s"
    unfolding suffix_def by blast
next
  assume "suffix t s"
  then obtain zs where "s = zs @ t"
    unfolding suffix_def by blast
  then show "js_endsWith s t"
    unfolding js_endsWith_def by simp
qed

lemma replace_slash_at_end_snoc:
  "replace_slash_at_end (v @ [c]) = (if c = CHR ''/'' then v else v @ [c])"
  by (induction v) auto

lemma replace_slash_at_end_butlast:
  "replace_slash_at_end u = (if suffix ''/'' u then butlast u else u)"
proof (cases u rule: rev_cases)
  case Nil
  then show ?thesis by simp
next
  case (snoc v c)
  then show ?thesis
    by (simp add: replace_slash_at_end_snoc)
qed

text \<open>
  Claim C1, as amended: the resolved URL is the input itself when the input string ends with
  \<^verbatim>\<open>.json\<close>; otherwise it is the input without one trailing \<^verbatim>\<open>/\<close>, if there is one,
  followed by \<^verbatim>\<open>/.well-known/agent-card.json\<close>. The test is on the whole string, not on the
  path of the URL.
\<close>

theorem determineAgentCardUrl_rule:
  "determineAgentCardUrl u =
     (if suffix ''.json'' u then u
      else (if suffix ''/'' u then butlast u else u) @ ''/.well-known/agent-card.json'')"
  by (simp add: determineAgentCardUrl_def js_endsWith_suffix replace_slash_at_end_butlast)

theorem determineAgentCardUrl_rule_witness:
  "determineAgentCardUrl ''https://example.com/my-agent/''
     = ''https://example.com/my-agent/.well-known/agent-card.json''
   \<and> determineAgentCardUrl ''https://example.com''
     = ''https://example.com/.well-known/agent-card.json''
   \<and> determineAgentCardUrl ''https://cdn.example.com/agent.json''
     = ''https://cdn.example.com/agent.json''
   \<and> determineAgentCardUrl ''https://example.com//''
     = ''https://example.com//.well-known/agent-card.json''"
  using determineAgentCardUrl_rule [of "''https://example.com/my-agent/''"]
        determineAgentCardUrl_rule [of "''https://example.com''"]
        determineAgentCardUrl_rule [of "''https://cdn.example.com/agent.json''"]
        determineAgentCardUrl_rule [of "''https://example.com//''"]
  by (simp add: suffix_to_prefix)

text \<open>
  Claim C1 as it is worded fails on a URL with a query: the path ends with \<^verbatim>\<open>.json\<close>, the
  string does not, and the suffix is appended after the query.
\<close>

theorem determineAgentCardUrl_path_counterexample:
  "spec_path_ends_with_json ''https://example.com/agent.json?v=1''
   \<and> determineAgentCardUrl ''https://example.com/agent.json?v=1''
       = ''https://example.com/agent.json?v=1/.well-known/agent-card.json''
   \<and> determineAgentCardUrl ''https://example.com/agent.json?v=1''
       \<noteq> ''https://example.com/agent.json?v=1''"
  by (simp add: spec_path_ends_with_json_def spec_url_path_def determineAgentCardUrl_def
        js_endsWith_def suffix_to_prefix)

section \<open>Properties of the validator\<close>

lemmas validator_defs =
  validateAgentCard_def requiredFields_def fieldMissing_def js_in_def
  nameIsNonEmptyString_def js_trim_def js_whitespace_def urlIsValidString_def isValidUrl_def
  new_URL_ok_def url_scheme_def url_input_def c0_control_or_space_def
  ascii_tab_or_newline_def ascii_alpha_def ascii_digit_def scheme_char_def ascii_lower_def
  special_schemes_def validateSkill_def requiredSkillFields_def validateOptionalFields_def

lemmas example_defs =
  example_card_def renamed_card_def array_capabilities_card_def mailto_card_def
  schemeless_card_def
  example_fields_def example_skill_def

lemma js_prop_Some_object: "js_prop data k = Some v \<Longrightarrow> \<exists>kvs. data = JObj kvs"
  by (cases data) simp_all

lemma find_fieldMissing_None:
  "find (fieldMissing data) fs = None
     \<longleftrightarrow> (\<forall>f \<in> set fs. \<exists>v. js_prop data f = Some v \<and> v \<noteq> JNull)"
  by (induction fs) (auto simp: fieldMissing_def js_in_def)








text \<open>
  The validator of the first generation does the opposite on this field: it accepts the
  array and rejects the object.
\<close>

lemma gen1_capabilities_check:
  "validateAgentCard_gen1 (\<lambda>scheme remaining. True) array_capabilities_card = Inr ()
   \<and> validateAgentCard_gen1 (\<lambda>scheme remaining. True) example_card
       = Inl (InvalidAgentCardError ''capabilities must be an array'')"
  by (simp add: validateAgentCard_gen1_def example_defs validator_defs)

lemma url_scheme_Some:
  assumes "url_scheme input = Some (scheme, remaining)"
  shows "\<exists>s. input = s @ CHR '':'' # remaining \<and> scheme = map ascii_lower s \<and> s \<noteq> []
             \<and> ascii_alpha (hd s) \<and> list_all scheme_char s"
proof -
  let ?s = "takeWhile scheme_char input"
  from assms obtain c cs where input: "input = c # cs" and alpha: "ascii_alpha c"
    by (auto simp: url_scheme_def split: list.splits if_splits)
  from assms input alpha have rest: "dropWhile scheme_char input = CHR '':'' # remaining"
    and scheme: "scheme = map ascii_lower ?s"
    by (auto simp: url_scheme_def split: list.splits if_splits)
  have "input = ?s @ dropWhile scheme_char input" by simp
  with rest have split: "input = ?s @ CHR '':'' # remaining" by simp
  from input alpha have "?s = c # takeWhile scheme_char cs"
    by (simp add: scheme_char_def)
  then have "?s \<noteq> []" and "ascii_alpha (hd ?s)" using alpha by simp_all
  moreover have "list_all scheme_char ?s"
    by (simp add: list_all_iff) (meson set_takeWhileD)
  ultimately show ?thesis using split scheme by blast
qed

lemma new_URL_ok_scheme:
  assumes "new_URL_ok aok u"
  shows "\<exists>s remaining. url_input u = s @ CHR '':'' # remaining \<and> s \<noteq> []
             \<and> ascii_alpha (hd s) \<and> list_all scheme_char s"
proof -
  from assms obtain scheme remaining
    where "url_scheme (url_input u) = Some (scheme, remaining)"
    by (auto simp: new_URL_ok_def split: option.splits)
  from url_scheme_Some [OF this] show ?thesis by blast
qed

lemma new_URL_ok_without_authority:
  assumes "url_scheme (url_input u) = Some (scheme, remaining)"
    and "scheme \<notin> set special_schemes" and "\<not> prefix ''//'' remaining"
  shows "new_URL_ok aok u"
  using assms by (simp add: new_URL_ok_def)

lemma accepted_url_parses:
  assumes "validateAgentCard aok data = Inr ()"
  shows "\<exists>u. js_prop data ''url'' = Some (JStr u) \<and> new_URL_ok aok u"
proof -
  from assms have "urlIsValidString aok (js_prop data ''url'')"
    by (auto simp: validateAgentCard_def split: option.splits if_splits)
  then show ?thesis
    by (auto simp: urlIsValidString_def isValidUrl_def split: option.splits json.splits)
qed

lemma url_check_message:
  assumes req: "\<forall>f \<in> set requiredFields. \<exists>v. js_prop data f = Some v \<and> v \<noteq> JNull"
    and name: "js_prop data ''name'' = Some (JStr n)" "js_trim n \<noteq> []"
    and descr: "js_prop data ''description'' = Some (JStr d)"
    and url: "\<forall>u. js_prop data ''url'' = Some (JStr u) \<longrightarrow> \<not> new_URL_ok aok u"
  shows "validateAgentCard aok data
           = Inl (InvalidAgentCardError ''url must be a valid URL string'')"
proof -
  obtain kvs where "data = JObj kvs"
    using name(1) js_prop_Some_object by blast
  then have obj: "\<not> (js_falsy data \<or> js_typeof (Some data) \<noteq> TObject)" by simp
  have none: "find (fieldMissing data) requiredFields = None"
    using req by (simp only: find_fieldMissing_None)
  have bad: "\<not> urlIsValidString aok (js_prop data ''url'')"
    using url
    by (auto simp: urlIsValidString_def isValidUrl_def split: option.splits json.splits)
  show ?thesis
    unfolding validateAgentCard_def
    using obj none name descr bad
    by (simp add: nameIsNonEmptyString_def)
qed

text \<open>
  Claim C9, as amended: the validator accepts a document only if its \<^verbatim>\<open>url\<close> field is a
  string that the URL constructor of the platform accepts, and such a string starts (after
  the parser's trimming) with a scheme and a colon. An authority is not needed: a string
  whose scheme is not special and whose rest does not start with \<^verbatim>\<open>//\<close> is accepted
  whatever the authority states do. When the earlier checks pass (the required fields are
  present and not null, the name is a string that is not blank, the description is a
  string), a \<^verbatim>\<open>url\<close> that is not a string or has no scheme is rejected with
  \<^verbatim>\<open>url must be a valid URL string\<close>.
\<close>

theorem validateAgentCard_url:
  "(validateAgentCard aok data = Inr () \<longrightarrow>
      (\<exists>u s remaining. js_prop data ''url'' = Some (JStr u) \<and> isValidUrl aok u
          \<and> url_input u = s @ CHR '':'' # remaining \<and> s \<noteq> []
          \<and> ascii_alpha (hd s) \<and> list_all scheme_char s))
   \<and> ((\<forall>f \<in> set requiredFields. \<exists>v. js_prop data f = Some v \<and> v \<noteq> JNull)
        \<and> (\<exists>n. js_prop data ''name'' = Some (JStr n) \<and> js_trim n \<noteq> [])
        \<and> (\<exists>d. js_prop data ''description'' = Some (JStr d))
        \<and> (\<forall>u. js_prop data ''url'' = Some (JStr u) \<longrightarrow> url_scheme (url_input u) = None)
        \<longrightarrow> validateAgentCard aok data
              = Inl (InvalidAgentCardError ''url must be a valid URL string''))
   \<and> (url_scheme (url_input w) = Some (scheme, rest) \<and> scheme \<notin> set special_schemes
        \<and> \<not> prefix ''//'' rest \<longrightarrow> isValidUrl aok w)"
proof (intro conjI impI)
  assume "validateAgentCard aok data = Inr ()"
  then obtain u where u: "js_prop data ''url'' = Some (JStr u)" "new_URL_ok aok u"
    using accepted_url_parses by blast
  with new_URL_ok_scheme [OF u(2)]
  show "\<exists>u s remaining. js_prop data ''url'' = Some (JStr u) \<and> isValidUrl aok u
          \<and> url_input u = s @ CHR '':'' # remaining \<and> s \<noteq> []
          \<and> ascii_alpha (hd s) \<and> list_all scheme_char s"
    unfolding isValidUrl_def by blast
next
  assume h: "(\<forall>f \<in> set requiredFields. \<exists>v. js_prop data f = Some v \<and> v \<noteq> JNull)
        \<and> (\<exists>n. js_prop data ''name'' = Some (JStr n) \<and> js_trim n \<noteq> [])
        \<and> (\<exists>d. js_prop data ''description'' = Some (JStr d))
        \<and> (\<forall>u. js_prop data ''url'' = Some (JStr u) \<longrightarrow> url_scheme (url_input u) = None)"
  then have "\<forall>u. js_prop data ''url'' = Some (JStr u) \<longrightarrow> \<not> new_URL_ok aok u"
    by (simp add: new_URL_ok_def)
  with h show "validateAgentCard aok data
              = Inl (InvalidAgentCardError ''url must be a valid URL string'')"
    using url_check_message [of data _ _ aok] by blast
next
  assume "url_scheme (url_input w) = Some (scheme, rest) \<and> scheme \<notin> set special_schemes
        \<and> \<not> prefix ''//'' rest"
  then show "isValidUrl aok w"
    unfolding isValidUrl_def using new_URL_ok_without_authority by blast
qed

theorem validateAgentCard_url_witness:
  "validateAgentCard (\<lambda>scheme remaining. True) example_card = Inr ()
   \<and> (\<exists>u s remaining. js_prop example_card ''url'' = Some (JStr u)
         \<and> url_input u = s @ CHR '':'' # remaining \<and> s \<noteq> [])
   \<and> js_prop schemeless_card ''url'' = Some (JStr ''example.com/agent'')
   \<and> url_scheme (url_input ''example.com/agent'') = None
   \<and> validateAgentCard (\<lambda>scheme remaining. True) schemeless_card
       = Inl (InvalidAgentCardError ''url must be a valid URL string'')
   \<and> url_scheme (url_input ''mailto:user@example.com'') = Some (''mailto'', ''user@example.com'')
   \<and> isValidUrl (\<lambda>scheme remaining. False) ''mailto:user@example.com''"
proof -
  have accepted: "validateAgentCard (\<lambda>scheme remaining. True) example_card = Inr ()"
    by (simp add: example_defs validator_defs)
  have url: "js_prop schemeless_card ''url'' = Some (JStr ''example.com/agent'')"
    by (simp add: example_defs)
  have none: "url_scheme (url_input ''example.com/agent'') = None"
    by (simp add: validator_defs)
  have earlier:
    "(\<forall>f \<in> set requiredFields. \<exists>v. js_prop schemeless_card f = Some v \<and> v \<noteq> JNull)
     \<and> (\<exists>n. js_prop schemeless_card ''name'' = Some (JStr n) \<and> js_trim n \<noteq> [])
     \<and> (\<exists>d. js_prop schemeless_card ''description'' = Some (JStr d))"
    by (simp add: example_defs validator_defs)
  have mailto: "url_scheme (url_input ''mailto:user@example.com'')
                  = Some (''mailto'', ''user@example.com'')"
    by (simp add: validator_defs)
  have other: "''mailto'' \<notin> set special_schemes \<and> \<not> prefix ''//'' ''user@example.com''"
    by (simp add: special_schemes_def)
  have scheme: "\<exists>u s remaining. js_prop example_card ''url'' = Some (JStr u)
         \<and> url_input u = s @ CHR '':'' # remaining \<and> s \<noteq> []"
    using accepted
      validateAgentCard_url
        [where aok = "\<lambda>scheme remaining. True" and data = example_card
           and w = "[]" and scheme = "[]" and rest = "[]"]
    by blast
  have rejected: "validateAgentCard (\<lambda>scheme remaining. True) schemeless_card
       = Inl (InvalidAgentCardError ''url must be a valid URL string'')"
    using earlier url none
      validateAgentCard_url
        [where aok = "\<lambda>scheme remaining. True" and data = schemeless_card
           and w = "[]" and scheme = "[]" and rest = "[]"]
    by simp
  have valid: "isValidUrl (\<lambda>scheme remaining. False) ''mailto:user@example.com''"
    using mailto other
      validateAgentCard_url
        [where aok = "\<lambda>scheme remaining. False" and data = JNull
           and w = "''mailto:user@example.com''" and scheme = "''mailto''"
           and rest = "''user@example.com''"]
    by blast
  from accepted scheme url none rejected mailto valid show ?thesis
    by blast
qed

text \<open>
  Claim C9 as it is worded fails on \<^verbatim>\<open>mailto:user@example.com\<close>: the string has no
  authority, and a card with this URL is accepted, even by a platform that rejects every
  authority.
\<close>

theorem validateAgentCard_url_counterexample:
  "js_prop mailto_card ''url'' = Some (JStr ''mailto:user@example.com'')
   \<and> \<not> spec_url_has_authority ''mailto:user@example.com''
   \<and> validateAgentCard (\<lambda>scheme remaining. False) mailto_card = Inr ()"
  by (simp add: example_defs validator_defs spec_url_has_authority_def)

section \<open>Properties of the stores\<close>

subsection \<open>JsonFileStore\<close>

lemma initialize_initialized: "initialized (JsonFileStore_initialize s)"
  by (simp add: JsonFileStore_initialize_def split: option.splits)

lemma initialize_file_content: "file_content (JsonFileStore_initialize s) = file_content s"
  by (simp add: JsonFileStore_initialize_def split: option.splits)

lemma initialize_when_initialized: "initialized s \<Longrightarrow> JsonFileStore_initialize s = s"
  by (simp add: JsonFileStore_initialize_def)

lemma initialize_idem: "JsonFileStore_initialize (JsonFileStore_initialize s) = JsonFileStore_initialize s"
  by (simp add: initialize_when_initialized initialize_initialized)

lemma initialize_persist:
  "initialized s \<Longrightarrow> JsonFileStore_initialize (JsonFileStore_persist s) = JsonFileStore_persist s"
  by (simp add: JsonFileStore_initialize_def JsonFileStore_persist_def)

lemma agents_persist: "agents (JsonFileStore_persist s) = agents s"
  by (simp add: JsonFileStore_persist_def)

lemma initialize_written:
  "JsonFileStore_initialize (JsonFileStore_persist ((JsonFileStore_initialize s)\<lparr>agents := a\<rparr>))
     = JsonFileStore_persist ((JsonFileStore_initialize s)\<lparr>agents := a\<rparr>)"
  by (rule initialize_persist) (simp add: initialize_initialized)

lemmas fs_simps = initialize_initialized initialize_file_content initialize_idem
  initialize_written agents_persist

lemma JsonFileStore_has_getAgent:
  "\<not> JsonFileStore_has s n \<Longrightarrow> fst (JsonFileStore_getAgent s n) = None"
  by (simp add: JsonFileStore_has_def JsonFileStore_getAgent_def Let_def)

lemma JsonFileStore_create_present:
  assumes "agentName D = Some N" "JsonFileStore_has s N"
  shows "JsonFileStore_createAgent s D = (Inl (AgentAlreadyExistsError N), JsonFileStore_initialize s)"
  using assms by (auto simp: JsonFileStore_createAgent_def JsonFileStore_has_def Let_def)

lemma JsonFileStore_getAgent_initialize:
  "JsonFileStore_getAgent (JsonFileStore_initialize s) n = JsonFileStore_getAgent s n"
  by (simp add: JsonFileStore_getAgent_def initialize_idem)

lemma JsonFileStore_create_absent:
  assumes "agentName D = Some N" "\<not> JsonFileStore_has s N"
  shows "JsonFileStore_createAgent s D =
           (Inr D, JsonFileStore_persist ((JsonFileStore_initialize s)
                     \<lparr>agents := AList.update N D (agents (JsonFileStore_initialize s))\<rparr>))"
  using assms by (auto simp: JsonFileStore_createAgent_def JsonFileStore_has_def Let_def)

lemma agentName_not_null: "agentName D = Some N \<Longrightarrow> nullish (Some D) = Some D"
  by (cases D) (simp_all add: agentName_def)

lemma JsonFileStore_get_after_write:
  "fst (JsonFileStore_getAgent
          (JsonFileStore_persist ((JsonFileStore_initialize s)\<lparr>agents := a\<rparr>)) m)
     = nullish (map_of a m)"
  by (simp add: JsonFileStore_getAgent_def Let_def initialize_written agents_persist)

subsection \<open>SqliteStore\<close>

lemma sql_select_map_of: "sql_select rows n = map_of rows n"
  by (induction rows) (auto simp: sql_select_def)

lemma find_key_None: "find (\<lambda>row. fst row = n) rows = None \<longleftrightarrow> map_of rows n = None"
  by (induction rows) auto

lemma sql_insert_map_of:
  "sql_insert rows n t = (if map_of rows n \<noteq> None then None else Some (rows @ [(n, t)]))"
  by (simp add: sql_insert_def find_key_None)

lemma map_of_snoc_absent: "map_of rows n = None \<Longrightarrow> map_of (rows @ [(n, t)]) m = (if m = n then Some t else map_of rows m)"
  by (induction rows) auto

lemma sql_update_changes:
  "fst (sql_update rows t n) = 0 \<longleftrightarrow> map_of rows n = None"
  by (induction rows) (auto simp: sql_update_def)


lemma sql_delete_changes:
  "fst (sql_delete rows n) > 0 \<longleftrightarrow> map_of rows n \<noteq> None"
  by (induction rows) (auto simp: sql_delete_def)

lemma sql_delete_map_of:
  "map_of (snd (sql_delete rows n)) m = (if m = n then None else map_of rows m)"
  by (induction rows) (auto simp: sql_delete_def)






lemma JsonFileStore_deleteAgent_present:
  assumes "JsonFileStore_has s N"
  shows "JsonFileStore_deleteAgent s N =
           (True, JsonFileStore_persist ((JsonFileStore_initialize s)
                     \<lparr>agents := AList.delete N (agents (JsonFileStore_initialize s))\<rparr>))"
  using assms by (auto simp: JsonFileStore_deleteAgent_def JsonFileStore_has_def Let_def)

lemma JsonFileStore_deleteAgent_absent:
  assumes "\<not> JsonFileStore_has s N"
  shows "JsonFileStore_deleteAgent s N = (False, JsonFileStore_initialize s)"
  using assms by (auto simp: JsonFileStore_deleteAgent_def JsonFileStore_has_def Let_def)

lemma JsonFileStore_has_written:
  "JsonFileStore_has (JsonFileStore_persist ((JsonFileStore_initialize s)\<lparr>agents := a\<rparr>)) m
     \<longleftrightarrow> map_of a m \<noteq> None"
  by (simp add: JsonFileStore_has_def initialize_written agents_persist)

lemma JsonFileStore_has_initialize:
  "JsonFileStore_has (JsonFileStore_initialize s) m = JsonFileStore_has s m"
  by (simp add: JsonFileStore_has_def initialize_idem)

lemma SqliteStore_getAgent_map_of:
  "SqliteStore_getAgent env db m =
     (case map_of (agents_table db) m of
        None \<Rightarrow> Inr None
      | Some t \<Rightarrow> (case JSON_parse env t of None \<Rightarrow> Inl SyntaxError
                                          | Some v \<Rightarrow> Inr (nullish (Some v))))"
  by (simp add: SqliteStore_getAgent_def sql_select_map_of)

lemma SqliteStore_createAgent_present:
  assumes "agentName D = Some N" "SqliteStore_has db N"
  shows "SqliteStore_createAgent env db D = (Inl (AgentAlreadyExistsError N), db)"
  using assms
  by (simp add: SqliteStore_createAgent_def SqliteStore_has_def sql_select_map_of sql_insert_map_of)

lemma SqliteStore_createAgent_absent:
  assumes "agentName D = Some N" "\<not> SqliteStore_has db N"
  shows "SqliteStore_createAgent env db D
           = (Inr D, db\<lparr>agents_table := agents_table db @ [(N, JSON_stringify env D)]\<rparr>)"
  using assms
  by (simp add: SqliteStore_createAgent_def SqliteStore_has_def sql_select_map_of sql_insert_map_of)

lemma SqliteStore_updateAgent_eq:
  "SqliteStore_updateAgent env db N D =
     (if SqliteStore_has db N then Some D else None,
      db\<lparr>agents_table := snd (sql_update (agents_table db) (JSON_stringify env D) N)\<rparr>)"
  using sql_update_changes [of "agents_table db" "JSON_stringify env D" N]
  by (auto simp: SqliteStore_updateAgent_def SqliteStore_has_def sql_select_map_of
        split: prod.splits)

lemma SqliteStore_deleteAgent_eq:
  "SqliteStore_deleteAgent db N =
     (SqliteStore_has db N, db\<lparr>agents_table := snd (sql_delete (agents_table db) N)\<rparr>)"
  using sql_delete_changes [of "agents_table db" N]
  by (auto simp: SqliteStore_deleteAgent_def SqliteStore_has_def sql_select_map_of
        split: prod.splits)

lemma accepted_card_has_name:
  assumes "validateAgentCard aok data = Inr ()"
  shows "agentName data \<noteq> None"
proof -
  from assms have "nameIsNonEmptyString (js_prop data ''name'')"
    by (auto simp: validateAgentCard_def split: option.splits if_splits)
  then show ?thesis
    by (auto simp: nameIsNonEmptyString_def agentName_def split: option.splits json.splits)
qed

subsection \<open>Names stay distinct\<close>

lemma distinct_fold_update:
  "distinct (map fst al) \<Longrightarrow>
     distinct (map fst (fold (\<lambda>(name, agentCard). AList.update name agentCard) kvs al))"
  by (induction kvs arbitrary: al) (auto simp: distinct_update)

lemma distinct_initialize:
  "distinct (map fst (agents s)) \<Longrightarrow> distinct (map fst (agents (JsonFileStore_initialize s)))"
  by (auto simp: JsonFileStore_initialize_def distinct_fold_update split: option.splits)

lemma distinct_JsonFileStore_apply:
  assumes "distinct (map fst (agents s))"
  shows "distinct (map fst (agents (snd (JsonFileStore_apply s operation))))"
proof -
  note d = distinct_initialize [OF assms]
  show ?thesis
  proof (cases operation)
    case (Create agentCard)
    with d show ?thesis
      by (auto simp: JsonFileStore_createAgent_def Let_def agents_persist distinct_update
            split: option.splits)
  next
    case (Get name)
    with d show ?thesis by (simp add: JsonFileStore_getAgent_def Let_def)
  next
    case (Replace name agentCard)
    with d show ?thesis
      by (auto simp: JsonFileStore_updateAgent_def Let_def agents_persist distinct_update)
  next
    case (Delete name)
    with d show ?thesis
      by (auto simp: JsonFileStore_deleteAgent_def Let_def agents_persist distinct_delete)
  next
    case List
    with d show ?thesis by (simp add: JsonFileStore_listAgents_def Let_def)
  qed
qed

lemma map_fst_sql_update: "map fst (snd (sql_update rows t n)) = map fst rows"
  by (induction rows) (auto simp: sql_update_def)

lemma distinct_sql_delete:
  "distinct (map fst rows) \<Longrightarrow> distinct (map fst (snd (sql_delete rows n)))"
  by (simp add: sql_delete_def distinct_map_filter)

lemma map_of_None_notin: "map_of rows n = None \<Longrightarrow> n \<notin> fst ` set rows"
  by (simp add: map_of_eq_None_iff)

lemma distinct_SqliteStore_apply:
  assumes "distinct (map fst (agents_table db))"
  shows "distinct (map fst (agents_table (snd (SqliteStore_apply env db operation))))"
proof (cases operation)
  case (Create agentCard)
  with assms show ?thesis
    by (auto simp: SqliteStore_createAgent_def sql_insert_map_of map_of_eq_None_iff
          split: option.splits if_splits)
next
  case (Get name)
  with assms show ?thesis by simp
next
  case (Replace name agentCard)
  with assms show ?thesis
    by (simp add: SqliteStore_updateAgent_eq map_fst_sql_update)
next
  case (Delete name)
  with assms show ?thesis
    by (simp add: SqliteStore_deleteAgent_eq distinct_sql_delete)
next
  case List
  with assms show ?thesis by simp
qed


subsection \<open>JSON texts\<close>

lemma number_written_lossless: "number_written n = JNum n \<longleftrightarrow> number_lossless n"
  by (cases n) simp_all

lemma JSON_written_iff_lossless: "JSON_written d = d \<longleftrightarrow> json_lossless d"
proof (induction d)
  case (JArr xs)
  then show ?case
    by (simp add: list_all_iff map_idI) (metis map_eq_conv map_ident)
next
  case (JObj kvs)
  have "map (map_prod id JSON_written) kvs = kvs
          \<longleftrightarrow> (\<forall>kv \<in> set kvs. JSON_written (snd kv) = snd kv)"
  proof
    assume eq: "map (map_prod id JSON_written) kvs = kvs"
    show "\<forall>kv \<in> set kvs. JSON_written (snd kv) = snd kv"
    proof
      fix kv assume "kv \<in> set kvs"
      with eq have "map_prod id JSON_written kv = kv"
        by (metis list.map_id0 map_eq_conv id_apply)
      then show "JSON_written (snd kv) = snd kv" by (cases kv) simp
    qed
  next
    assume "\<forall>kv \<in> set kvs. JSON_written (snd kv) = snd kv"
    then have "\<forall>kv \<in> set kvs. map_prod id JSON_written kv = kv" by auto
    then show "map (map_prod id JSON_written) kvs = kvs" by (simp add: map_idI)
  qed
  moreover have "\<And>kv. kv \<in> set kvs
                   \<Longrightarrow> JSON_written (snd kv) = snd kv \<longleftrightarrow> json_lossless (snd kv)"
  proof -
    fix kv assume "kv \<in> set kvs"
    moreover obtain k v where "kv = (k, v)" by (cases kv)
    ultimately show "JSON_written (snd kv) = snd kv \<longleftrightarrow> json_lossless (snd kv)"
      using JObj.IH [of kv v] by simp
  qed
  ultimately show ?case
    by (auto simp: list_all_iff)
qed (simp_all add: number_written_lossless)

lemma JSON_written_object: "agentName D = Some N \<Longrightarrow> nullish (Some (JSON_written D)) = Some (JSON_written D)"
  by (cases D) (simp_all add: agentName_def)

lemma standard_JSON:
  "JSON_parse (standard_platform aok http) (JSON_stringify (standard_platform aok http) d)
     = Some (JSON_written d)"
  by (simp add: standard_platform_def JSON_stringify_text_def)

subsection \<open>The example stores\<close>

lemma example_card_name: "agentName example_card = Some ''weather''"
  by (simp add: agentName_def example_defs)

lemma renamed_card_name: "agentName renamed_card = Some ''climate''"
  by (simp add: agentName_def example_defs)


lemma example_cards_written:
  "JSON_written example_card = example_card"
  "JSON_written renamed_card = renamed_card"
  "JSON_written updated_card = updated_card"
  by (simp_all add: updated_card_def example_defs)

lemma weather_not_index: "array_index ''weather'' = None" "array_index ''climate'' = None"
  by (simp_all add: array_index_def)

lemma persisted_example:
  "persisted_object [(''weather'', example_card)] = JObj [(''weather'', example_card)]"
  by (simp add: persisted_object_def own_property_order_def weather_not_index
        example_cards_written)

lemma example_file_store_eq:
  "example_file_store =
     \<lparr>file_content = Some (JObj [(''weather'', example_card)]),
      agents = [(''weather'', example_card)], initialized = True\<rparr>"
  by (simp add: example_file_store_def JsonFileStore_createAgent_def JsonFileStore_new_def
        JsonFileStore_initialize_def JsonFileStore_persist_def example_card_name Let_def
        persisted_example)

lemma example_platform_JSON:
  "JSON_stringify example_platform d = JsonText (JSON_written d)"
  "JSON_parse example_platform (JsonText d) = Some d"
  "URL_authority_ok example_platform = (\<lambda>scheme remaining. True)"
  "axios_get example_platform = example_http"
  by (simp_all add: example_platform_def standard_platform_def JSON_stringify_text_def)

lemma example_database_eq:
  "example_database = \<lparr>agents_table = [(''weather'', JsonText example_card)]\<rparr>"
  by (simp add: example_database_def SqliteStore_createAgent_def SqliteStore_new_def
        sql_insert_def example_card_name example_platform_JSON example_cards_written)

lemma example_stores_have:
  "JsonFileStore_has example_file_store ''weather''"
  "SqliteStore_has example_database ''weather''"
  "\<not> JsonFileStore_has example_file_store ''climate''"
  "\<not> SqliteStore_has example_database ''climate''"
  by (simp_all add: example_file_store_eq example_database_eq JsonFileStore_has_def
        SqliteStore_has_def JsonFileStore_initialize_def sql_select_def)




text \<open>
  Claim C4: when the name of a card is present in the store, \<^verbatim>\<open>createAgent\<close> fails with
  \<^verbatim>\<open>AgentAlreadyExistsError\<close>, and what \<^verbatim>\<open>getAgent\<close> returns for that name, the map and the
  file (the table, for the database) are as before. Every operation of either store keeps
  the names distinct, so a name never has two documents.
\<close>

theorem createAgent_existing_name:
  "(agentName agentCard = Some name \<longrightarrow>
      (JsonFileStore_has fs name \<longrightarrow>
         fst (JsonFileStore_createAgent fs agentCard) = Inl (AgentAlreadyExistsError name)
         \<and> fst (JsonFileStore_getAgent (snd (JsonFileStore_createAgent fs agentCard)) name)
             = fst (JsonFileStore_getAgent fs name)
         \<and> file_content (snd (JsonFileStore_createAgent fs agentCard)) = file_content fs
         \<and> agents (snd (JsonFileStore_createAgent fs agentCard))
             = agents (JsonFileStore_initialize fs))
      \<and> (SqliteStore_has db name \<longrightarrow>
           SqliteStore_createAgent env db agentCard = (Inl (AgentAlreadyExistsError name), db)))
   \<and> (distinct (map fst (agents fs))
        \<longrightarrow> distinct (map fst (agents (snd (JsonFileStore_apply fs operation)))))
   \<and> (distinct (map fst (agents_table db))
        \<longrightarrow> distinct (map fst (agents_table (snd (SqliteStore_apply env db operation)))))"
  by (simp add: JsonFileStore_create_present SqliteStore_createAgent_present
        JsonFileStore_getAgent_initialize initialize_file_content initialize_idem
        distinct_JsonFileStore_apply distinct_SqliteStore_apply)

theorem createAgent_existing_name_witness:
  "JsonFileStore_has example_file_store ''weather''
   \<and> fst (JsonFileStore_createAgent example_file_store example_card)
       = Inl (AgentAlreadyExistsError ''weather'')
   \<and> fst (JsonFileStore_getAgent
             (snd (JsonFileStore_createAgent example_file_store example_card)) ''weather'')
       = Some example_card
   \<and> SqliteStore_has example_database ''weather''
   \<and> SqliteStore_createAgent example_platform example_database example_card
       = (Inl (AgentAlreadyExistsError ''weather''), example_database)
   \<and> distinct (map fst (agents example_file_store))
   \<and> distinct (map fst (agents (snd (JsonFileStore_apply example_file_store
                                         (Create renamed_card)))))
   \<and> distinct (map fst (agents_table example_database))
   \<and> distinct (map fst (agents_table (snd (SqliteStore_apply example_platform
                                               example_database (Create renamed_card)))))"
proof -
  have before: "fst (JsonFileStore_getAgent example_file_store ''weather'') = Some example_card"
    by (simp add: example_file_store_eq JsonFileStore_getAgent_def
          JsonFileStore_initialize_def example_card_def)
  have distinct: "distinct (map fst (agents example_file_store))"
    "distinct (map fst (agents_table example_database))"
    by (simp_all add: example_file_store_eq example_database_eq)
  from example_card_name example_stores_have(1,2) before distinct show ?thesis
    using createAgent_existing_name
            [where agentCard = example_card and name = "''weather''"
               and fs = example_file_store and db = example_database
               and env = example_platform and operation = "Create renamed_card"]
    by simp
qed

lemma SqliteStore_get_after_create:
  assumes "agentName D = Some N" "\<not> SqliteStore_has db N"
  shows "SqliteStore_getAgent env (snd (SqliteStore_createAgent env db D)) N
           = (case JSON_parse env (JSON_stringify env D) of
                None \<Rightarrow> Inl SyntaxError
              | Some v \<Rightarrow> Inr (nullish (Some v)))"
proof -
  have absent: "map_of (agents_table db) N = None"
    using assms(2) by (simp add: SqliteStore_has_def sql_select_map_of)
  have row: "map_of (agents_table db @ [(N, JSON_stringify env D)]) N
               = Some (JSON_stringify env D)"
    using map_of_snoc_absent [OF absent, of "JSON_stringify env D" N] by simp
  have "SqliteStore_getAgent env (db\<lparr>agents_table := agents_table db @ [(N, JSON_stringify env D)]\<rparr>) N
          = (case JSON_parse env (JSON_stringify env D) of
               None \<Rightarrow> Inl SyntaxError
             | Some v \<Rightarrow> Inr (nullish (Some v)))"
    using row by (simp add: SqliteStore_getAgent_map_of del: map_of_append)
  then show ?thesis
    using assms by (simp add: SqliteStore_createAgent_absent)
qed

text \<open>
  Claim C5, as amended: a card that passes the validator has a string as its name; when that
  name is not present in the store, \<^verbatim>\<open>createAgent\<close> returns the card, and \<^verbatim>\<open>getAgent\<close> of the
  name then returns the same card in the file store, and in the database store the card as
  \<^verbatim>\<open>JSON.parse\<close> reads the text that \<^verbatim>\<open>JSON.stringify\<close> writes for it. That is the same card
  exactly when the card has no negative zero and no infinity in it.
\<close>

theorem createAgent_then_getAgent:
  "(validateAgentCard aok agentCard = Inr () \<longrightarrow> agentName agentCard \<noteq> None)
   \<and> (agentName agentCard = Some name \<longrightarrow>
     (\<not> JsonFileStore_has fs name \<longrightarrow>
        fst (JsonFileStore_createAgent fs agentCard) = Inr agentCard
        \<and> fst (JsonFileStore_getAgent (snd (JsonFileStore_createAgent fs agentCard)) name)
            = Some agentCard)
     \<and> (\<not> SqliteStore_has db name \<longrightarrow>
          fst (SqliteStore_createAgent (standard_platform aok http) db agentCard)
            = Inr agentCard
          \<and> SqliteStore_getAgent (standard_platform aok http)
               (snd (SqliteStore_createAgent (standard_platform aok http) db agentCard)) name
              = Inr (Some (JSON_written agentCard))))
   \<and> (JSON_written agentCard = agentCard \<longleftrightarrow> json_lossless agentCard)"
proof (intro conjI impI)
  assume "validateAgentCard aok agentCard = Inr ()"
  then show "agentName agentCard \<noteq> None"
    by (rule accepted_card_has_name)
next
  assume name: "agentName agentCard = Some name" and absent: "\<not> JsonFileStore_has fs name"
  then show "fst (JsonFileStore_createAgent fs agentCard) = Inr agentCard"
    by (simp add: JsonFileStore_create_absent)
  from name absent
  show "fst (JsonFileStore_getAgent (snd (JsonFileStore_createAgent fs agentCard)) name)
          = Some agentCard"
    by (simp add: JsonFileStore_create_absent JsonFileStore_get_after_write update_conv'
          agentName_not_null)
next
  let ?env = "standard_platform aok http"
  assume name: "agentName agentCard = Some name" and absent: "\<not> SqliteStore_has db name"
  then show "fst (SqliteStore_createAgent ?env db agentCard) = Inr agentCard"
    by (simp add: SqliteStore_createAgent_absent)
  from SqliteStore_get_after_create [OF name absent, of ?env]
  show "SqliteStore_getAgent ?env (snd (SqliteStore_createAgent ?env db agentCard)) name
          = Inr (Some (JSON_written agentCard))"
    by (simp add: standard_JSON JSON_written_object [OF name])
next
  show "JSON_written agentCard = agentCard \<longleftrightarrow> json_lossless agentCard"
    by (rule JSON_written_iff_lossless)
qed

theorem createAgent_then_getAgent_witness:
  "validateAgentCard (\<lambda>scheme remaining. True) renamed_card = Inr ()
   \<and> agentName renamed_card = Some ''climate''
   \<and> \<not> JsonFileStore_has example_file_store ''climate''
   \<and> fst (JsonFileStore_createAgent example_file_store renamed_card) = Inr renamed_card
   \<and> fst (JsonFileStore_getAgent
             (snd (JsonFileStore_createAgent example_file_store renamed_card)) ''climate'')
       = Some renamed_card
   \<and> \<not> SqliteStore_has example_database ''climate''
   \<and> fst (SqliteStore_createAgent example_platform example_database renamed_card)
       = Inr renamed_card
   \<and> SqliteStore_getAgent example_platform
        (snd (SqliteStore_createAgent example_platform example_database renamed_card))
        ''climate''
       = Inr (Some renamed_card)
   \<and> json_lossless renamed_card"
proof -
  have valid: "validateAgentCard (\<lambda>scheme remaining. True) renamed_card = Inr ()"
    by (simp add: example_defs validator_defs)
  from valid renamed_card_name example_stores_have(3,4) example_cards_written(2)
  show ?thesis
    using createAgent_then_getAgent
            [where agentCard = renamed_card and name = "''climate''"
               and fs = example_file_store and db = example_database
               and aok = "\<lambda>scheme remaining. True" and http = example_http]
    by (simp add: example_platform_def)
qed

text \<open>
  Claim C5 as it is worded fails in the database store on a valid card with a negative zero
  and an infinity: the card is created, and \<^verbatim>\<open>getAgent\<close> returns a document with \<^verbatim>\<open>0\<close> and
  \<^verbatim>\<open>null\<close> in their places.
\<close>

theorem createAgent_then_getAgent_counterexample:
  "validateAgentCard (\<lambda>scheme remaining. True) lossy_card = Inr ()
   \<and> agentName lossy_card = Some ''weather''
   \<and> \<not> SqliteStore_has (SqliteStore_new []) ''weather''
   \<and> fst (SqliteStore_createAgent example_platform (SqliteStore_new []) lossy_card)
       = Inr lossy_card
   \<and> SqliteStore_getAgent example_platform
        (snd (SqliteStore_createAgent example_platform (SqliteStore_new []) lossy_card))
        ''weather''
       = Inr (Some lossy_card_read_back)
   \<and> lossy_card_read_back \<noteq> lossy_card"
proof -
  have valid: "validateAgentCard (\<lambda>scheme remaining. True) lossy_card = Inr ()"
    by (simp add: lossy_card_def example_defs validator_defs)
  have name: "agentName lossy_card = Some ''weather''"
    by (simp add: agentName_def lossy_card_def example_defs)
  have absent: "\<not> SqliteStore_has (SqliteStore_new []) ''weather''"
    by (simp add: SqliteStore_has_def SqliteStore_new_def sql_select_def)
  have written: "JSON_written lossy_card = lossy_card_read_back"
    by (simp add: lossy_card_def lossy_card_read_back_def example_defs)
  have created:
    "SqliteStore_createAgent example_platform (SqliteStore_new []) lossy_card
       = (Inr lossy_card, \<lparr>agents_table = [(''weather'', JsonText lossy_card_read_back)]\<rparr>)"
    by (simp add: SqliteStore_createAgent_def SqliteStore_new_def sql_insert_def name
          example_platform_JSON written)
  have read: "SqliteStore_getAgent example_platform
                \<lparr>agents_table = [(''weather'', JsonText lossy_card_read_back)]\<rparr> ''weather''
                = Inr (Some lossy_card_read_back)"
    by (simp add: SqliteStore_getAgent_def sql_select_def example_platform_JSON
          lossy_card_read_back_def)
  have differs: "lossy_card_read_back \<noteq> lossy_card"
    by (simp add: lossy_card_def lossy_card_read_back_def example_fields_def)
  from valid name absent created read differs show ?thesis by simp
qed

text \<open>
  Claim C7: \<^verbatim>\<open>deleteAgent\<close> of a name that is not present returns \<^verbatim>\<open>false\<close>; after a
  \<^verbatim>\<open>createAgent\<close> that succeeded, \<^verbatim>\<open>deleteAgent\<close> of the card's name returns \<^verbatim>\<open>true\<close> and a
  second one \<^verbatim>\<open>false\<close>, in both stores. The model of \<^verbatim>\<open>deleteAgent\<close> has no error result.
\<close>

theorem deleteAgent_idempotent:
  "(\<not> JsonFileStore_has fs name \<longrightarrow> fst (JsonFileStore_deleteAgent fs name) = False)
   \<and> (\<not> SqliteStore_has db name \<longrightarrow> fst (SqliteStore_deleteAgent db name) = False)
   \<and> (agentName agentCard = Some name \<longrightarrow>
        (fst (JsonFileStore_createAgent fs agentCard) = Inr agentCard \<longrightarrow>
           fst (JsonFileStore_deleteAgent (snd (JsonFileStore_createAgent fs agentCard)) name)
             = True
           \<and> fst (JsonFileStore_deleteAgent
                    (snd (JsonFileStore_deleteAgent
                           (snd (JsonFileStore_createAgent fs agentCard)) name)) name)
               = False)
        \<and> (fst (SqliteStore_createAgent env db agentCard) = Inr agentCard \<longrightarrow>
           fst (SqliteStore_deleteAgent (snd (SqliteStore_createAgent env db agentCard)) name)
             = True
           \<and> fst (SqliteStore_deleteAgent
                    (snd (SqliteStore_deleteAgent
                           (snd (SqliteStore_createAgent env db agentCard)) name)) name)
               = False))"
proof (intro conjI impI)
  assume "\<not> JsonFileStore_has fs name"
  then show "fst (JsonFileStore_deleteAgent fs name) = False"
    by (simp add: JsonFileStore_deleteAgent_absent)
next
  assume "\<not> SqliteStore_has db name"
  then show "fst (SqliteStore_deleteAgent db name) = False"
    by (simp add: SqliteStore_deleteAgent_eq)
next
  assume name: "agentName agentCard = Some name"
    and created: "fst (JsonFileStore_createAgent fs agentCard) = Inr agentCard"
  have absent: "\<not> JsonFileStore_has fs name"
    using created name by (auto simp: JsonFileStore_create_present)
  let ?s1 = "snd (JsonFileStore_createAgent fs agentCard)"
  have s1: "?s1 = JsonFileStore_persist ((JsonFileStore_initialize fs)
              \<lparr>agents := AList.update name agentCard (agents (JsonFileStore_initialize fs))\<rparr>)"
    using name absent by (simp add: JsonFileStore_create_absent)
  have has1: "JsonFileStore_has ?s1 name"
    unfolding s1 by (simp add: JsonFileStore_has_written update_conv')
  show "fst (JsonFileStore_deleteAgent ?s1 name) = True"
    using has1 by (simp add: JsonFileStore_deleteAgent_present)
  have "snd (JsonFileStore_deleteAgent ?s1 name) = JsonFileStore_persist ((JsonFileStore_initialize ?s1)
              \<lparr>agents := AList.delete name (agents (JsonFileStore_initialize ?s1))\<rparr>)"
    using has1 by (simp add: JsonFileStore_deleteAgent_present)
  then have "\<not> JsonFileStore_has (snd (JsonFileStore_deleteAgent ?s1 name)) name"
    by (simp add: JsonFileStore_has_written delete_conv')
  then show "fst (JsonFileStore_deleteAgent (snd (JsonFileStore_deleteAgent ?s1 name)) name) = False"
    by (simp add: JsonFileStore_deleteAgent_absent)
next
  assume name: "agentName agentCard = Some name"
    and created: "fst (SqliteStore_createAgent env db agentCard) = Inr agentCard"
  have absent: "\<not> SqliteStore_has db name"
    using created name by (auto simp: SqliteStore_createAgent_present)
  let ?d1 = "snd (SqliteStore_createAgent env db agentCard)"
  have d1: "?d1 = db\<lparr>agents_table := agents_table db @ [(name, JSON_stringify env agentCard)]\<rparr>"
    using name absent by (simp add: SqliteStore_createAgent_absent)
  have has1: "SqliteStore_has ?d1 name"
    using absent unfolding d1
    by (simp add: SqliteStore_has_def sql_select_map_of map_of_snoc_absent)
  show "fst (SqliteStore_deleteAgent ?d1 name) = True"
    using has1 by (simp add: SqliteStore_deleteAgent_eq)
  have "\<not> SqliteStore_has (snd (SqliteStore_deleteAgent ?d1 name)) name"
    by (simp add: SqliteStore_deleteAgent_eq SqliteStore_has_def sql_select_map_of sql_delete_map_of)
  then show "fst (SqliteStore_deleteAgent (snd (SqliteStore_deleteAgent ?d1 name)) name) = False"
    by (simp add: SqliteStore_deleteAgent_eq)
qed

theorem deleteAgent_idempotent_witness:
  "\<not> JsonFileStore_has example_file_store ''climate''
   \<and> fst (JsonFileStore_deleteAgent example_file_store ''climate'') = False
   \<and> \<not> SqliteStore_has example_database ''climate''
   \<and> fst (SqliteStore_deleteAgent example_database ''climate'') = False
   \<and> fst (JsonFileStore_createAgent example_file_store renamed_card) = Inr renamed_card
   \<and> fst (JsonFileStore_deleteAgent
             (snd (JsonFileStore_createAgent example_file_store renamed_card)) ''climate'')
       = True
   \<and> fst (JsonFileStore_deleteAgent
             (snd (JsonFileStore_deleteAgent
                    (snd (JsonFileStore_createAgent example_file_store renamed_card))
                    ''climate'')) ''climate'')
       = False
   \<and> fst (SqliteStore_createAgent example_platform example_database renamed_card)
       = Inr renamed_card
   \<and> fst (SqliteStore_deleteAgent
             (snd (SqliteStore_createAgent example_platform example_database renamed_card))
             ''climate'')
       = True
   \<and> fst (SqliteStore_deleteAgent
             (snd (SqliteStore_deleteAgent
                    (snd (SqliteStore_createAgent example_platform example_database
                            renamed_card)) ''climate'')) ''climate'')
       = False"
proof -
  have created:
    "fst (JsonFileStore_createAgent example_file_store renamed_card) = Inr renamed_card"
    "fst (SqliteStore_createAgent example_platform example_database renamed_card)
       = Inr renamed_card"
    using renamed_card_name example_stores_have(3,4)
    by (simp_all add: JsonFileStore_create_absent SqliteStore_createAgent_absent)
  from renamed_card_name example_stores_have(3,4) created show ?thesis
    using deleteAgent_idempotent
            [where agentCard = renamed_card and name = "''climate''"
               and fs = example_file_store and db = example_database
               and env = example_platform]
    by simp
qed



section \<open>Properties of the service\<close>

lemma example_file_service_get:
  "Store_getAgent example_platform (store example_file_service) ''weather''
     = (Inr (Some example_card), JsonFile example_file_store)"
  by (simp add: example_file_service_def example_file_store_eq JsonFileStore_getAgent_def
        JsonFileStore_initialize_def example_card_def)

lemma example_database_service_get:
  "Store_getAgent example_platform (store example_database_service) ''weather''
     = (Inr (Some example_card), Sqlite example_database)"
  by (simp add: example_database_service_def example_database_eq SqliteStore_getAgent_def
        sql_select_def example_platform_JSON example_card_def)

lemma Store_getAgent_absent:
  assumes "\<not> Store_has st name"
  shows "\<exists>st'. Store_getAgent env st name = (Inr None, st')
              \<and> Store_written st' = Store_written st
              \<and> (\<forall>env'. Store_getAgent env' st name = (Inr None, st'))"
proof (cases st)
  case (JsonFile fs)
  with assms have "nullish (map_of (agents (JsonFileStore_initialize fs)) name) = None"
    by (simp add: JsonFileStore_has_def)
  with JsonFile show ?thesis
    by (simp add: JsonFileStore_getAgent_def Let_def initialize_file_content)
next
  case (Sqlite db)
  with assms show ?thesis
    by (simp add: SqliteStore_getAgent_def SqliteStore_has_def)
qed

text \<open>
  Claim C8: when the name is not present in the store, \<^verbatim>\<open>updateAgent\<close> returns \<^verbatim>\<open>null\<close>; no
  request is sent, nothing is written to the file or the table, and the outcome is the same
  for every platform and every \<^verbatim>\<open>url\<close> argument, so it depends on no response and on no
  validation.
\<close>

theorem updateAgent_absent:
  "\<not> Store_has (store this) name \<longrightarrow>
     fst (updateAgent env this name url) = Inr None
     \<and> requests (snd (updateAgent env this name url)) = requests this
     \<and> Store_written (store (snd (updateAgent env this name url))) = Store_written (store this)
     \<and> updateAgent env' this name url' = updateAgent env this name url"
proof
  assume "\<not> Store_has (store this) name"
  from Store_getAgent_absent [OF this, of env]
  obtain st' where get: "Store_getAgent env (store this) name = (Inr None, st')"
    and written: "Store_written st' = Store_written (store this)"
    and any: "\<forall>env'. Store_getAgent env' (store this) name = (Inr None, st')"
    by blast
  from any have get': "Store_getAgent env' (store this) name = (Inr None, st')" by blast
  have "updateAgent env this name url = (Inr None, this\<lparr>store := st'\<rparr>)"
    by (simp add: updateAgent_def get)
  moreover have "updateAgent env' this name url' = (Inr None, this\<lparr>store := st'\<rparr>)"
    by (simp add: updateAgent_def get')
  ultimately show "fst (updateAgent env this name url) = Inr None
     \<and> requests (snd (updateAgent env this name url)) = requests this
     \<and> Store_written (store (snd (updateAgent env this name url))) = Store_written (store this)
     \<and> updateAgent env' this name url' = updateAgent env this name url"
    using written by simp
qed

theorem updateAgent_absent_witness:
  "\<not> Store_has (store example_file_service) ''climate''
   \<and> fst (updateAgent example_platform example_file_service ''climate'' None) = Inr None
   \<and> requests (snd (updateAgent example_platform example_file_service ''climate'' None)) = []
   \<and> Store_written (store (snd (updateAgent example_platform example_file_service
                                    ''climate'' None)))
       = Inl (Some (JObj [(''weather'', example_card)]))
   \<and> updateAgent (example_platform\<lparr>axios_get := \<lambda>url. Inr renamed_card\<rparr>)
        example_file_service ''climate'' (Some ''https://moved.example.com'')
       = updateAgent example_platform example_file_service ''climate'' None
   \<and> \<not> Store_has (store example_database_service) ''climate''
   \<and> fst (updateAgent example_platform example_database_service ''climate'' None) = Inr None
   \<and> requests (snd (updateAgent example_platform example_database_service ''climate'' None))
       = []
   \<and> Store_written (store (snd (updateAgent example_platform example_database_service
                                    ''climate'' None)))
       = Inr [(''weather'', JsonText example_card)]"
proof -
  have absent: "\<not> Store_has (store example_file_service) ''climate''"
    "\<not> Store_has (store example_database_service) ''climate''"
    using example_stores_have(3,4)
    by (simp_all add: example_file_service_def example_database_service_def)
  have before: "requests example_file_service = []"
    "requests example_database_service = []"
    "Store_written (store example_file_service) = Inl (Some (JObj [(''weather'', example_card)]))"
    "Store_written (store example_database_service)
       = Inr [(''weather'', JsonText example_card)]"
    by (simp_all add: example_file_service_def example_database_service_def
          example_file_store_eq example_database_eq)
  from absent before show ?thesis
    using updateAgent_absent
            [where this = example_file_service and name = "''climate''"
               and env = example_platform and url = None
               and env' = "example_platform\<lparr>axios_get := \<lambda>url. Inr renamed_card\<rparr>"
               and url' = "Some ''https://moved.example.com''"]
          updateAgent_absent
            [where this = example_database_service and name = "''climate''"
               and env = example_platform and url = None
               and env' = example_platform and url' = None]
    by simp
qed

lemma Store_getAgent_again:
  assumes "Store_getAgent env st name = (r, st')"
  shows "Store_getAgent env st' name = (r, st') \<and> Store_written st' = Store_written st"
proof (cases st)
  case (JsonFile fs)
  with assms show ?thesis
    by (auto simp: JsonFileStore_getAgent_def Let_def initialize_idem initialize_file_content)
next
  case (Sqlite db)
  with assms show ?thesis by auto
qed

lemma agentName_eq: "agentName data = Some name \<longleftrightarrow> js_prop data ''name'' = Some (JStr name)"
  by (auto simp: agentName_def split: option.splits json.splits)

text \<open>
  Claim C3: when the store has a document under the name and the card fetched for the
  update passes the validator but has another name, \<^verbatim>\<open>updateAgent\<close> throws an
  \<^verbatim>\<open>InvalidAgentCardError\<close>; the file or the table is as before, and \<^verbatim>\<open>getAgent\<close> still
  returns the same document.
\<close>

theorem updateAgent_rejects_rename:
  "Store_getAgent env (store this) name = (Inr (Some (JObj kvs)), st)
   \<and> fetchUrlOf url (JObj kvs) = Some fetchUrl
   \<and> axios_get env (determineAgentCardUrl fetchUrl) = Inr data
   \<and> validateAgentCard (URL_authority_ok env) data = Inr ()
   \<and> agentName data \<noteq> Some name
   \<longrightarrow> fst (updateAgent env this name url)
         = Inl (InvalidAgentCardError (nameChangedMessage name data))
       \<and> Store_written (store (snd (updateAgent env this name url)))
           = Store_written (store this)
       \<and> fst (Store_getAgent env (store (snd (updateAgent env this name url))) name)
           = Inr (Some (JObj kvs))"
proof
  assume h: "Store_getAgent env (store this) name = (Inr (Some (JObj kvs)), st)
   \<and> fetchUrlOf url (JObj kvs) = Some fetchUrl
   \<and> axios_get env (determineAgentCardUrl fetchUrl) = Inr data
   \<and> validateAgentCard (URL_authority_ok env) data = Inr ()
   \<and> agentName data \<noteq> Some name"
  then have fetched: "fetchAgentCard env fetchUrl (requests this)
                        = (Inr data, requests this @ [determineAgentCardUrl fetchUrl])"
    by (simp add: fetchAgentCard_def Let_def)
  from h have differs: "js_prop data ''name'' \<noteq> Some (JStr name)"
    by (simp add: agentName_eq)
  from h fetched differs
  have result: "updateAgent env this name url
          = (Inl (InvalidAgentCardError (nameChangedMessage name data)),
             this\<lparr>store := st, requests := requests this @ [determineAgentCardUrl fetchUrl]\<rparr>)"
    by (simp add: updateAgent_def)
  from h Store_getAgent_again [of env "store this" name "Inr (Some (JObj kvs))" st]
  have "Store_getAgent env st name = (Inr (Some (JObj kvs)), st)"
    and "Store_written st = Store_written (store this)"
    by simp_all
  with result show "fst (updateAgent env this name url)
         = Inl (InvalidAgentCardError (nameChangedMessage name data))
       \<and> Store_written (store (snd (updateAgent env this name url)))
           = Store_written (store this)
       \<and> fst (Store_getAgent env (store (snd (updateAgent env this name url))) name)
           = Inr (Some (JObj kvs))"
    by simp
qed

theorem updateAgent_rejects_rename_witness:
  "fst (updateAgent example_platform example_file_service ''weather''
          (Some ''https://moved.example.com''))
     = Inl (InvalidAgentCardError (nameChangedMessage ''weather'' renamed_card))
   \<and> Store_written (store (snd (updateAgent example_platform example_file_service ''weather''
                                    (Some ''https://moved.example.com''))))
       = Inl (Some (JObj [(''weather'', example_card)]))
   \<and> fst (Store_getAgent example_platform
             (store (snd (updateAgent example_platform example_file_service ''weather''
                            (Some ''https://moved.example.com'')))) ''weather'')
       = Inr (Some example_card)
   \<and> fst (updateAgent example_platform example_database_service ''weather''
          (Some ''https://moved.example.com''))
     = Inl (InvalidAgentCardError (nameChangedMessage ''weather'' renamed_card))
   \<and> Store_written (store (snd (updateAgent example_platform example_database_service
                                    ''weather'' (Some ''https://moved.example.com''))))
       = Inr [(''weather'', JsonText example_card)]
   \<and> fst (Store_getAgent example_platform
             (store (snd (updateAgent example_platform example_database_service ''weather''
                            (Some ''https://moved.example.com'')))) ''weather'')
       = Inr (Some example_card)"
proof -
  let ?kvs = "example_fields ''weather'' ''https://example.com'' (JObj [(''streaming'', JBool True)])"
  have card: "example_card = JObj ?kvs" by (simp add: example_card_def)
  have url: "fetchUrlOf (Some ''https://moved.example.com'') (JObj ?kvs)
               = Some ''https://moved.example.com''"
    by (simp add: fetchUrlOf_def)
  have fetched: "axios_get example_platform (determineAgentCardUrl ''https://moved.example.com'')
                   = Inr renamed_card"
    by (simp add: example_platform_JSON example_http_def determineAgentCardUrl_def
          js_endsWith_def)
  have valid: "validateAgentCard (URL_authority_ok example_platform) renamed_card = Inr ()"
    by (simp add: example_platform_JSON example_defs validator_defs)
  have differs: "agentName renamed_card \<noteq> Some ''weather''"
    by (simp add: renamed_card_name)
  have before:
    "Store_written (store example_file_service) = Inl (Some (JObj [(''weather'', example_card)]))"
    "Store_written (store example_database_service)
       = Inr [(''weather'', JsonText example_card)]"
    by (simp_all add: example_file_service_def example_database_service_def
          example_file_store_eq example_database_eq)
  from url fetched valid differs before
    example_file_service_get [unfolded card] example_database_service_get [unfolded card]
  show ?thesis
    unfolding card
    using updateAgent_rejects_rename
            [where env = example_platform and this = example_file_service
               and name = "''weather''" and kvs = ?kvs and st = "JsonFile example_file_store"
               and url = "Some ''https://moved.example.com''"
               and fetchUrl = "''https://moved.example.com''" and data = renamed_card]
          updateAgent_rejects_rename
            [where env = example_platform and this = example_database_service
               and name = "''weather''" and kvs = ?kvs and st = "Sqlite example_database"
               and url = "Some ''https://moved.example.com''"
               and fetchUrl = "''https://moved.example.com''" and data = renamed_card]
    by simp
qed

end
